theory Spec2Isabelle
  imports Main
begin

chapter \<open>Guild AI: model registry (guild/model.py) and flag codec (guild/flag\_util.py)\<close>

text \<open>
  A shallow embedding of the two Python modules. Functions keep their Python names; a
  leading underscore is dropped because an Isabelle name cannot start with one
  (\<open>_escape_project_name\<close> is \<open>escape_project_name\<close>). Exceptions are values of
  \<open>py_error\<close> and a function that can raise returns \<open>py_error + 'a\<close>. Functions that
  log or touch the file system take the trace of events so far and return it extended.
\<close>

section \<open>Python values\<close>

text \<open>
  A Python 3 \<open>str\<close> is a sequence of code points, a \<open>bytes\<close> object a sequence of
  bytes. Code points are natural numbers (below \<open>0x110000\<close> in every Python string);
  bytes are Isabelle characters, which are exactly the 8-bit values.
\<close>

type_synonym pystr = "nat list"
type_synonym pybytes = "char list"

definition ustr :: "string \<Rightarrow> pystr" where
  "ustr s = map of_char s"

text \<open>
  The exceptions the two modules raise, catch or let through. \<open>IOError\<close> stands for the
  class and its subclasses, \<open>YAMLError\<close> for \<open>yaml.YAMLError\<close> and its subclasses,
  \<open>OtherError\<close> for any other subclass of \<open>Exception\<close> that a collaborator may raise.
  \<open>binascii.Error\<close> and the two Unicode errors are subclasses of \<open>ValueError\<close>.
\<close>

datatype py_error =
    ValueError pystr
  | IOError
  | IndexError
  | AttributeError string
  | LookupError pystr
  | BinasciiError
  | UnicodeEncodeError
  | UnicodeDecodeError
  | TypeError
  | YAMLError
  | OtherError pystr

text \<open>\<open>except ValueError\<close> catches the class and its subclasses.\<close>

definition is_ValueError :: "py_error \<Rightarrow> bool" where
  "is_ValueError err =
     (case err of
        ValueError _ \<Rightarrow> True
      | BinasciiError \<Rightarrow> True
      | UnicodeEncodeError \<Rightarrow> True
      | UnicodeDecodeError \<Rightarrow> True
      | _ \<Rightarrow> False)"

section \<open>Definitions and distributions\<close>

text \<open>
  A parsed model definition (\<open>guild.modelfile\<close> is a collaborator): the module reads its
  \<open>name\<close>, \<open>private\<close> and \<open>resources\<close>. A modelfile has the path \<open>src\<close> it was read
  from and iterates over its definitions in declaration order.
\<close>

record modeldef =
  md_name :: pystr
  md_private :: bool
  md_resources :: "pystr list"

record modelfile =
  src :: pystr
  models :: "modeldef list"

text \<open>
  A \<open>pkg_resources.Distribution\<close> as this module uses it: \<open>project_name\<close>, \<open>version\<close>
  (absent when the metadata has none), \<open>location\<close>, the result of
  \<open>get_metadata_lines("RECORD")\<close>, and the instance attributes the module sets on the
  object (\<open>hasattr\<close>, attribute assignment and attribute read act on \<open>attrs\<close>).
\<close>

record Distribution =
  project_name :: pystr
  version :: "pystr option"
  location :: pystr
  metadata_RECORD :: "py_error + pystr list"
  attrs :: "string \<rightharpoonup> modeldef list"

record ModelfileDistribution =
  mfd_project_name :: pystr
  mfd_location :: pystr
  mfd_modelfile :: modelfile

datatype any_dist = PackageDist Distribution | ModelfileDist ModelfileDistribution

definition hasattr :: "Distribution \<Rightarrow> string \<Rightarrow> bool" where
  "hasattr d a = (a \<in> dom (attrs d))"

definition setattr :: "Distribution \<Rightarrow> string \<Rightarrow> modeldef list \<Rightarrow> Distribution" where
  "setattr d a v = d\<lparr>attrs := (attrs d)(a \<mapsto> v)\<rparr>"

definition getattr :: "Distribution \<Rightarrow> string \<Rightarrow> py_error + modeldef list" where
  "getattr d a = (case attrs d a of None \<Rightarrow> Inl (AttributeError a) | Some v \<Rightarrow> Inr v)"

section \<open>The environment and the trace of effects\<close>

text \<open>
  What the module reads from outside itself: the working directory, the recognised
  definition-file names (\<open>modelfile.NAMES\<close>), the definition loader
  (\<open>modelfile.from_file\<close>), the bytes of a file (\<open>open(path, "rb").read()\<close>) and the MD5
  hex digest (\<open>hashlib.md5(b).hexdigest()\<close>).
\<close>

record env =
  cwd :: pystr
  NAMES :: "pystr list"
  from_file :: "pystr \<Rightarrow> py_error + modeldef list"
  read_bytes :: "pystr \<Rightarrow> py_error + pybytes"
  md5_hexdigest :: "pybytes \<Rightarrow> pystr"

text \<open>
  The effects, in the order they happen: reading a manifest, loading a definition file,
  reading a file's bytes, and the three warnings the module logs.
\<close>

datatype event =
    GetMetadataLines pystr
  | FromFile pystr
  | ReadBytes pystr
  | WarnMissingRecord pystr
  | WarnUnableToLoad pystr py_error
  | WarnUnableToReadHash pystr

type_synonym trace = "event list"

section \<open>String and list operations of Python\<close>

definition startswith :: "pystr \<Rightarrow> pystr \<Rightarrow> bool" where
  "startswith s p = (take (length p) s = p)"

definition endswith :: "pystr \<Rightarrow> pystr \<Rightarrow> bool" where
  "endswith s p = (drop (length s - length p) s = p \<and> length p \<le> length s)"

text \<open>\<open>s.split(sep)\<close> for a one-character separator: every occurrence splits.\<close>

fun str_split :: "nat \<Rightarrow> pystr \<Rightarrow> pystr list" where
  "str_split sep [] = [[]]"
| "str_split sep (c # cs) =
     (if c = sep then [] # str_split sep cs
      else (case str_split sep cs of
              [] \<Rightarrow> [[c]]
            | p # ps \<Rightarrow> (c # p) # ps))"

text \<open>\<open>s.split(sep, 1)\<close>: at most one split, at the first occurrence.\<close>

fun str_split1 :: "nat \<Rightarrow> pystr \<Rightarrow> pystr list" where
  "str_split1 sep [] = [[]]"
| "str_split1 sep (c # cs) =
     (if c = sep then [[], cs]
      else (case str_split1 sep cs of
              [] \<Rightarrow> [[c]]
            | p # ps \<Rightarrow> (c # p) # ps))"

text \<open>\<open>sep.join(parts)\<close>.\<close>

fun str_join :: "pystr \<Rightarrow> pystr list \<Rightarrow> pystr" where
  "str_join sep [] = []"
| "str_join sep [p] = p"
| "str_join sep (p # q # ps) = p @ sep @ str_join sep (q # ps)"

text \<open>\<open>s.rfind(c)\<close>: the index of the last occurrence, \<open>-1\<close> when there is none.\<close>

definition rfind :: "pystr \<Rightarrow> nat \<Rightarrow> int" where
  "rfind s c =
     (if c \<in> set s then int (length s) - 1 - int (length (takeWhile (\<lambda>x. x \<noteq> c) (rev s)))
      else - 1)"

definition rstrip_char :: "nat \<Rightarrow> pystr \<Rightarrow> pystr" where
  "rstrip_char c s = rev (dropWhile (\<lambda>x. x = c) (rev s))"

text \<open>\<open>xs[0]\<close> raises \<open>IndexError\<close> on an empty sequence.\<close>

definition getitem0 :: "'a list \<Rightarrow> py_error + 'a" where
  "getitem0 xs = (case xs of [] \<Rightarrow> Inl IndexError | x # _ \<Rightarrow> Inr x)"

text \<open>\<open>xs.remove(x)\<close> deletes the first element equal to \<open>x\<close> and raises \<open>ValueError\<close>
  when there is none.\<close>

definition list_remove :: "'a list \<Rightarrow> 'a \<Rightarrow> py_error + 'a list" where
  "list_remove xs x = (if x \<in> set xs then Inr (remove1 x xs) else Inl (ValueError []))"

definition list_insert0 :: "'a list \<Rightarrow> 'a \<Rightarrow> 'a list" where
  "list_insert0 xs x = x # xs"

section \<open>posixpath\<close>

definition SEP :: nat where
  "SEP = of_char CHR ''/''"

definition DOT :: nat where
  "DOT = of_char CHR ''.''"

definition isabs :: "pystr \<Rightarrow> bool" where
  "isabs s = startswith s [SEP]"

text \<open>\<open>os.path.join(a, b)\<close> with two arguments.\<close>

definition join :: "pystr \<Rightarrow> pystr \<Rightarrow> pystr" where
  "join a b =
     (if startswith b [SEP] then b
      else if a = [] \<or> endswith a [SEP] then a @ b
      else a @ [SEP] @ b)"

text \<open>\<open>os.path.join(*parts)\<close>: the loop over the remaining arguments.\<close>

fun join_all :: "pystr \<Rightarrow> pystr list \<Rightarrow> pystr" where
  "join_all a [] = a"
| "join_all a (b # bs) = join_all (join a b) bs"

definition basename :: "pystr \<Rightarrow> pystr" where
  "basename p = drop (nat (rfind p SEP + 1)) p"

definition dirname :: "pystr \<Rightarrow> pystr" where
  "dirname p =
     (let head = take (nat (rfind p SEP + 1)) p
      in if head \<noteq> [] \<and> head \<noteq> replicate (length head) SEP then rstrip_char SEP head
         else head)"

section \<open>Loading the definitions of a package distribution\<close>

text \<open>\<open>Distribution.__str__\<close> of \<open>pkg_resources\<close>: the project name and the version,
  \<open>[unknown version]\<close> when the version is missing or empty. \<open>__repr__\<close> appends the
  location in parentheses when there is one.\<close>

definition Distribution_str :: "Distribution \<Rightarrow> pystr" where
  "Distribution_str d =
     project_name d @ ustr '' '' @
     (case version d of
        None \<Rightarrow> ustr ''[unknown version]''
      | Some v \<Rightarrow> if v = [] then ustr ''[unknown version]'' else v)"

definition Distribution_repr :: "Distribution \<Rightarrow> pystr" where
  "Distribution_repr d =
     (if location d \<noteq> [] then Distribution_str d @ ustr '' ('' @ location d @ ustr '')''
      else Distribution_str d)"

text \<open>\<open>_try_acc_modeldefs\<close>: every exception of the loader is caught and logged.\<close>

definition try_acc_modeldefs ::
  "env \<Rightarrow> pystr \<Rightarrow> modeldef list \<Rightarrow> trace \<Rightarrow> modeldef list \<times> trace" where
  "try_acc_modeldefs e path acc tr =
     (case from_file e path of
        Inl err \<Rightarrow> (acc, tr @ [FromFile path, WarnUnableToLoad path err])
      | Inr ms \<Rightarrow> (acc @ ms, tr @ [FromFile path]))"

text \<open>The \<open>for line in record\<close> loop of \<open>_load_dist_modeldefs\<close>.\<close>

fun load_record_lines ::
  "env \<Rightarrow> Distribution \<Rightarrow> pystr list \<Rightarrow> modeldef list \<Rightarrow> trace
    \<Rightarrow> (py_error + modeldef list) \<times> trace" where
  "load_record_lines e d [] acc tr = (Inr acc, tr)"
| "load_record_lines e d (line # rest) acc tr =
     (case getitem0 (str_split1 (of_char CHR '','') line) of
        Inl err \<Rightarrow> (Inl err, tr)
      | Inr path \<Rightarrow>
          if basename path \<in> set (NAMES e) then
            (let fullpath = join (location d) path;
                 (acc', tr') = try_acc_modeldefs e fullpath acc tr
             in load_record_lines e d rest acc' tr')
          else load_record_lines e d rest acc tr)"

definition load_dist_modeldefs ::
  "env \<Rightarrow> Distribution \<Rightarrow> trace \<Rightarrow> (py_error + modeldef list) \<times> trace" where
  "load_dist_modeldefs e d tr =
     (let tr1 = tr @ [GetMetadataLines (Distribution_str d)]
      in case metadata_RECORD d of
           Inl IOError \<Rightarrow> (Inr [], tr1 @ [WarnMissingRecord (Distribution_str d)])
         | Inl err \<Rightarrow> (Inl err, tr1)
         | Inr record \<Rightarrow> load_record_lines e d record [] tr1)"

text \<open>\<open>_ensure_dist_modeldefs\<close>: the test reads the attribute \<open>_modelefs\<close>, the
  assignment and the return use \<open>_modeldefs\<close>.\<close>

definition ensure_dist_modeldefs ::
  "env \<Rightarrow> Distribution \<Rightarrow> trace \<Rightarrow> (py_error + modeldef list) \<times> Distribution \<times> trace" where
  "ensure_dist_modeldefs e d tr =
     (if \<not> hasattr d ''_modelefs'' then
        (case load_dist_modeldefs e d tr of
           (Inl err, tr') \<Rightarrow> (Inl err, d, tr')
         | (Inr defs, tr') \<Rightarrow>
             (let d' = setattr d ''_modeldefs'' defs
              in (getattr d' ''_modeldefs'', d', tr')))
      else (getattr d ''_modeldefs'', d, tr))"

section \<open>Resolving a name within one distribution\<close>

text \<open>\<open>ModelfileDistribution.get_model\<close>: the loop over the modelfile, then
  \<open>raise ValueError(name)\<close>.\<close>

fun get_model_loop :: "modeldef list \<Rightarrow> pystr \<Rightarrow> py_error + modeldef" where
  "get_model_loop [] name = Inl (ValueError name)"
| "get_model_loop (m # ms) name =
     (if md_name m = name then Inr m else get_model_loop ms name)"

definition get_model :: "ModelfileDistribution \<Rightarrow> pystr \<Rightarrow> py_error + modeldef" where
  "get_model mfd name = get_model_loop (models (mfd_modelfile mfd)) name"

text \<open>The loop of \<open>_modeldef_for_dist\<close> over the loaded definitions, then
  \<open>raise ValueError("undefined model '%s'" % name)\<close>.\<close>

fun modeldef_for_dist_loop :: "modeldef list \<Rightarrow> pystr \<Rightarrow> py_error + modeldef" where
  "modeldef_for_dist_loop [] name =
     Inl (ValueError (ustr ''undefined model '' @ [39] @ name @ [39]))"
| "modeldef_for_dist_loop (m # ms) name =
     (if md_name m = name then Inr m else modeldef_for_dist_loop ms name)"

definition modeldef_for_dist ::
  "env \<Rightarrow> pystr \<Rightarrow> any_dist \<Rightarrow> trace \<Rightarrow> (py_error + modeldef) \<times> any_dist \<times> trace" where
  "modeldef_for_dist e name dist tr =
     (case dist of
        ModelfileDist mfd \<Rightarrow> (get_model mfd name, dist, tr)
      | PackageDist d \<Rightarrow>
          (case ensure_dist_modeldefs e d tr of
             (Inl err, d', tr') \<Rightarrow> (Inl err, PackageDist d', tr')
           | (Inr defs, d', tr') \<Rightarrow> (modeldef_for_dist_loop defs name, PackageDist d', tr')))"

section \<open>The model wrapper and the registry\<close>

record Model =
  name :: pystr
  dist :: any_dist
  modeldef :: modeldef
  fullname_cache :: "pystr option"

text \<open>
  Modelled from the spec: \<open>guild.entry_point_util.EntryPointResources\<close>, the class of
  the module's \<open>_models\<close> registry, is not among the sources. The spec gives it an
  ordered search path, read by \<open>path()\<close> and replaced wholesale by \<open>set_path\<close>, which
  discards the cached index; an index from fully-qualified name to model, rebuilt from
  the search path when it is stale, in which \<open>for_name\<close> looks a name up and fails with
  a not-found error when it is absent; and an iteration that yields every entry of the
  index. The index is an association list in iteration order; \<open>scan\<close> is what a rebuild
  finds for a search path (discovery is outside the module).
\<close>

record EntryPointResources =
  search_path :: "pystr list"
  index :: "(pystr \<times> Model) list option"

type_synonym scan = "pystr list \<Rightarrow> (pystr \<times> Model) list"

definition registry_path :: "EntryPointResources \<Rightarrow> pystr list" where
  "registry_path r = search_path r"

definition registry_set_path :: "EntryPointResources \<Rightarrow> pystr list \<Rightarrow> EntryPointResources" where
  "registry_set_path r p = r\<lparr>search_path := p, index := None\<rparr>"

definition registry_resources :: "scan \<Rightarrow> EntryPointResources \<Rightarrow> (pystr \<times> Model) list" where
  "registry_resources scan r =
     (case index r of None \<Rightarrow> scan (search_path r) | Some idx \<Rightarrow> idx)"

definition registry_ensure :: "scan \<Rightarrow> EntryPointResources \<Rightarrow> EntryPointResources" where
  "registry_ensure scan r = r\<lparr>index := Some (registry_resources scan r)\<rparr>"

definition registry_for_name ::
  "scan \<Rightarrow> EntryPointResources \<Rightarrow> pystr \<Rightarrow> (py_error + Model) \<times> EntryPointResources" where
  "registry_for_name scan r n =
     ((case map_of (registry_resources scan r) n of
         None \<Rightarrow> Inl (LookupError n)
       | Some m \<Rightarrow> Inr m),
      registry_ensure scan r)"

definition registry_iter ::
  "scan \<Rightarrow> EntryPointResources \<Rightarrow> (pystr \<times> Model) list \<times> EntryPointResources" where
  "registry_iter scan r = (registry_resources scan r, registry_ensure scan r)"

text \<open>The module's own functions over the registry.\<close>

definition get_path :: "EntryPointResources \<Rightarrow> pystr list" where
  "get_path r = registry_path r"

definition set_path :: "EntryPointResources \<Rightarrow> pystr list \<Rightarrow> EntryPointResources" where
  "set_path r p = registry_set_path r p"

text \<open>\<open>add_model_path\<close>: \<open>path.remove\<close> in a \<open>try\<close> that passes on \<open>ValueError\<close>, then
  \<open>path.insert(0, model_path)\<close> and \<open>set_path\<close>.\<close>

definition add_model_path ::
  "EntryPointResources \<Rightarrow> pystr \<Rightarrow> py_error + EntryPointResources" where
  "add_model_path r model_path =
     (let p = registry_path r
      in case (case list_remove p model_path of
                 Inl err \<Rightarrow> if is_ValueError err then Inr p else Inl err
               | Inr q \<Rightarrow> Inr q) of
           Inl err \<Rightarrow> Inl err
         | Inr p1 \<Rightarrow> Inr (registry_set_path r (list_insert0 p1 model_path)))"

text \<open>\<open>iter_models\<close>: the generator over the registry that skips private definitions.\<close>

definition iter_models :: "scan \<Rightarrow> EntryPointResources \<Rightarrow> Model list \<times> EntryPointResources" where
  "iter_models scan r =
     (case registry_iter scan r of
        (entries, r') \<Rightarrow> (map snd (filter (\<lambda>(n, m). \<not> md_private (modeldef m)) entries), r'))"

definition for_name ::
  "scan \<Rightarrow> EntryPointResources \<Rightarrow> pystr \<Rightarrow> (py_error + Model) \<times> EntryPointResources" where
  "for_name scan r n = registry_for_name scan r n"

section \<open>Escaping a path into a project name\<close>

text \<open>\<open>str.encode("utf-8")\<close>: one to four bytes per code point; a surrogate cannot be
  encoded.\<close>

definition utf8_encode_cp :: "nat \<Rightarrow> py_error + pybytes" where
  "utf8_encode_cp c =
     (if c < 0x80 then Inr [char_of c]
      else if c < 0x800 then Inr [char_of (0xC0 + c div 64), char_of (0x80 + c mod 64)]
      else if c < 0x10000 then
        (if 0xD800 \<le> c \<and> c \<le> 0xDFFF then Inl UnicodeEncodeError
         else Inr [char_of (0xE0 + c div 4096), char_of (0x80 + c div 64 mod 64),
                   char_of (0x80 + c mod 64)])
      else if c < 0x110000 then
        Inr [char_of (0xF0 + c div 262144), char_of (0x80 + c div 4096 mod 64),
             char_of (0x80 + c div 64 mod 64), char_of (0x80 + c mod 64)]
      else Inl UnicodeEncodeError)"

fun utf8_encode :: "pystr \<Rightarrow> py_error + pybytes" where
  "utf8_encode [] = Inr []"
| "utf8_encode (c # cs) =
     (case utf8_encode_cp c of
        Inl err \<Rightarrow> Inl err
      | Inr bs \<Rightarrow> (case utf8_encode cs of Inl err \<Rightarrow> Inl err | Inr r \<Rightarrow> Inr (bs @ r)))"

text \<open>\<open>bytes.decode("utf-8")\<close>, strict: a continuation byte is \<open>10xxxxxx\<close>; overlong
  forms, surrogates and values above \<open>0x10FFFF\<close> are rejected.\<close>

definition is_cont :: "char \<Rightarrow> bool" where
  "is_cont b = (0x80 \<le> (of_char b :: nat) \<and> (of_char b :: nat) < 0xC0)"

definition cont_bits :: "char \<Rightarrow> nat" where
  "cont_bits b = of_char b - 0x80"

text \<open>The code point at the head of a byte string and the number of bytes after the
  lead byte it takes.\<close>

definition utf8_decode_one :: "char \<Rightarrow> pybytes \<Rightarrow> py_error + (nat \<times> nat)" where
  "utf8_decode_one b bs =
     (let n = (of_char b :: nat)
      in if n < 0x80 then Inr (n, 0)
         else if 0xC2 \<le> n \<and> n < 0xE0 then
           (case bs of
              b1 # _ \<Rightarrow>
                if is_cont b1 then Inr ((n - 0xC0) * 64 + cont_bits b1, 1)
                else Inl UnicodeDecodeError
            | _ \<Rightarrow> Inl UnicodeDecodeError)
         else if 0xE0 \<le> n \<and> n < 0xF0 then
           (case bs of
              b1 # b2 # _ \<Rightarrow>
                (let v = (n - 0xE0) * 4096 + cont_bits b1 * 64 + cont_bits b2
                 in if is_cont b1 \<and> is_cont b2 \<and> 0x800 \<le> v \<and> \<not> (0xD800 \<le> v \<and> v \<le> 0xDFFF)
                    then Inr (v, 2) else Inl UnicodeDecodeError)
            | _ \<Rightarrow> Inl UnicodeDecodeError)
         else if 0xF0 \<le> n \<and> n < 0xF5 then
           (case bs of
              b1 # b2 # b3 # _ \<Rightarrow>
                (let v = (n - 0xF0) * 262144 + cont_bits b1 * 4096 + cont_bits b2 * 64
                           + cont_bits b3
                 in if is_cont b1 \<and> is_cont b2 \<and> is_cont b3 \<and> 0x10000 \<le> v \<and> v < 0x110000
                    then Inr (v, 3) else Inl UnicodeDecodeError)
            | _ \<Rightarrow> Inl UnicodeDecodeError)
         else Inl UnicodeDecodeError)"

fun utf8_decode :: "pybytes \<Rightarrow> py_error + pystr" where
  "utf8_decode [] = Inr []"
| "utf8_decode (b # bs) =
     (case utf8_decode_one b bs of
        Inl err \<Rightarrow> Inl err
      | Inr (cp, k) \<Rightarrow>
          (case utf8_decode (drop k bs) of
             Inl err \<Rightarrow> Inl err
           | Inr r \<Rightarrow> Inr (cp # r)))"

text \<open>\<open>base64.b16encode\<close> is \<open>binascii.hexlify(s).upper()\<close>.\<close>

definition hexlify_digit :: "nat \<Rightarrow> char" where
  "hexlify_digit n = ''0123456789abcdef'' ! n"

definition hexlify :: "pybytes \<Rightarrow> pybytes" where
  "hexlify bs =
     concat (map (\<lambda>b. [hexlify_digit (of_char b div 16), hexlify_digit (of_char b mod 16)]) bs)"

definition bytes_upper :: "pybytes \<Rightarrow> pybytes" where
  "bytes_upper bs =
     map (\<lambda>c. if 97 \<le> (of_char c :: nat) \<and> (of_char c :: nat) \<le> 122
               then char_of ((of_char c :: nat) - 32) else c) bs"

definition b16encode :: "pybytes \<Rightarrow> pybytes" where
  "b16encode s = bytes_upper (hexlify s)"

text \<open>\<open>base64.b16decode(s)\<close> on a \<open>str\<close>: the string is encoded as ASCII
  (\<open>ValueError\<close> when it cannot be), a character outside \<open>0-9A-F\<close> raises
  \<open>binascii.Error\<close>, and \<open>binascii.unhexlify\<close> raises it for an odd length.\<close>

definition ascii_encode :: "pystr \<Rightarrow> py_error + pybytes" where
  "ascii_encode s =
     (if list_all (\<lambda>c. c < 128) s then Inr (map char_of s)
      else Inl (ValueError (ustr ''string argument should contain only ASCII characters'')))"

definition is_b16_digit :: "char \<Rightarrow> bool" where
  "is_b16_digit c =
     (let n = (of_char c :: nat) in (48 \<le> n \<and> n \<le> 57) \<or> (65 \<le> n \<and> n \<le> 70))"

definition hexval :: "char \<Rightarrow> nat option" where
  "hexval c =
     (let n = (of_char c :: nat)
      in if 48 \<le> n \<and> n \<le> 57 then Some (n - 48)
         else if 65 \<le> n \<and> n \<le> 70 then Some (n - 55)
         else if 97 \<le> n \<and> n \<le> 102 then Some (n - 87)
         else None)"

fun unhexlify :: "pybytes \<Rightarrow> py_error + pybytes" where
  "unhexlify [] = Inr []"
| "unhexlify [a] = Inl BinasciiError"
| "unhexlify (a # b # r) =
     (case (hexval a, hexval b) of
        (Some x, Some y) \<Rightarrow>
          (case unhexlify r of
             Inl err \<Rightarrow> Inl err
           | Inr bs \<Rightarrow> Inr (char_of (16 * x + y) # bs))
      | _ \<Rightarrow> Inl BinasciiError)"

definition b16decode :: "pystr \<Rightarrow> py_error + pybytes" where
  "b16decode s =
     (case ascii_encode s of
        Inl err \<Rightarrow> Inl err
      | Inr bs \<Rightarrow>
          if list_all is_b16_digit bs then unhexlify bs else Inl BinasciiError)"

text \<open>\<open>_escape_project_name\<close> and \<open>_unescape_project_name\<close>.\<close>

definition escape_project_name :: "pystr \<Rightarrow> py_error + pystr" where
  "escape_project_name nm =
     (case utf8_encode nm of
        Inl err \<Rightarrow> Inl err
      | Inr bs \<Rightarrow> utf8_decode (b16encode bs))"

definition unescape_project_name :: "pystr \<Rightarrow> py_error + pystr" where
  "unescape_project_name escaped_name =
     (case b16decode escaped_name of
        Inl err \<Rightarrow> Inl err
      | Inr bs \<Rightarrow> utf8_decode bs)"

text \<open>\<open>ModelfileNamespace.is_project_name_member\<close>.\<close>

datatype Membership = yes | no

definition is_project_name_member :: "pystr \<Rightarrow> py_error + (Membership \<times> pystr option)" where
  "is_project_name_member nm =
     (if startswith nm (ustr ''.modelfile.'') then
        (let parts = str_split1 SEP (drop 11 nm)
         in case getitem0 parts of
              Inl err \<Rightarrow> Inl err
            | Inr part0 \<Rightarrow>
                (case unescape_project_name part0 of
                   Inl err \<Rightarrow> Inl err
                 | Inr pn \<Rightarrow>
                     (let rest = (if length parts = 2 then [SEP] @ parts ! 1 else [])
                      in Inr (yes, Some (pn @ rest)))))
      else Inr (no, None))"

section \<open>posixpath: normalising and relating paths\<close>

text \<open>\<open>posixpath.normpath\<close>: the loop over the components, then the function. One or
  two leading slashes are kept, three or more are one.\<close>

fun normpath_loop :: "nat \<Rightarrow> pystr list \<Rightarrow> pystr list \<Rightarrow> pystr list" where
  "normpath_loop initial_slashes [] new_comps = new_comps"
| "normpath_loop initial_slashes (part # comps) new_comps =
     (if part = [] \<or> part = [DOT] then normpath_loop initial_slashes comps new_comps
      else if part \<noteq> [DOT, DOT] \<or> (initial_slashes = 0 \<and> new_comps = [])
                \<or> (new_comps \<noteq> [] \<and> last new_comps = [DOT, DOT])
        then normpath_loop initial_slashes comps (new_comps @ [part])
      else if new_comps \<noteq> [] then normpath_loop initial_slashes comps (butlast new_comps)
      else normpath_loop initial_slashes comps new_comps)"

definition normpath :: "pystr \<Rightarrow> pystr" where
  "normpath path =
     (if path = [] then [DOT]
      else
        (let initial_slashes =
               (if startswith path [SEP] then
                  (if startswith path [SEP, SEP] \<and> \<not> startswith path [SEP, SEP, SEP]
                   then 2 else 1)
                else 0);
             comps = normpath_loop initial_slashes (str_split SEP path) [];
             p = str_join [SEP] comps;
             p' = (if initial_slashes \<noteq> 0 then replicate initial_slashes SEP @ p else p)
         in if p' = [] then [DOT] else p'))"

definition abspath :: "env \<Rightarrow> pystr \<Rightarrow> pystr" where
  "abspath e path = normpath (if \<not> isabs path then join (cwd e) path else path)"

text \<open>\<open>genericpath.commonprefix\<close> of two sequences: it compares the smaller with the
  larger of the two, element by element, and what they share is their longest common
  prefix.\<close>

fun commonprefix :: "'a list \<Rightarrow> 'a list \<Rightarrow> 'a list" where
  "commonprefix (x # xs) (y # ys) = (if x = y then x # commonprefix xs ys else [])"
| "commonprefix _ _ = []"

text \<open>\<open>posixpath.relpath(path)\<close> with the default start, the current directory.\<close>

definition relpath :: "env \<Rightarrow> pystr \<Rightarrow> py_error + pystr" where
  "relpath e path =
     (if path = [] then Inl (ValueError (ustr ''no path specified''))
      else
        (let start_list = filter (\<lambda>x. x \<noteq> []) (str_split SEP (abspath e [DOT]));
             path_list = filter (\<lambda>x. x \<noteq> []) (str_split SEP (abspath e path));
             i = length (commonprefix start_list path_list);
             rel_list = replicate (length start_list - i) [DOT, DOT] @ drop i path_list
         in case rel_list of
              [] \<Rightarrow> Inr [DOT]
            | a # p \<Rightarrow> Inr (join_all a p)))"

section \<open>File-backed distributions\<close>

text \<open>\<open>_modelfile_project_name\<close>.\<close>

definition modelfile_project_name :: "env \<Rightarrow> modelfile \<Rightarrow> py_error + pystr" where
  "modelfile_project_name e mf =
     (case relpath e (dirname (src mf)) of
        Inl err \<Rightarrow> Inl err
      | Inr pkg_path \<Rightarrow>
          (case getitem0 pkg_path of
             Inl err \<Rightarrow> Inl err
           | Inr c \<Rightarrow>
               (let pkg_path' = (if c \<noteq> DOT then join [DOT] pkg_path else pkg_path)
                in case escape_project_name pkg_path' of
                     Inl err \<Rightarrow> Inl err
                   | Inr safe_path \<Rightarrow> Inr (ustr ''.modelfile.'' @ safe_path))))"

text \<open>\<open>pkg_resources.safe_name\<close>, which the constructor of \<open>Distribution\<close> applies to
  the project name: every run of characters outside \<open>A-Za-z0-9.\<close> becomes one \<open>-\<close>.\<close>

definition is_safe_char :: "nat \<Rightarrow> bool" where
  "is_safe_char c = ((48 \<le> c \<and> c \<le> 57) \<or> (65 \<le> c \<and> c \<le> 90) \<or> (97 \<le> c \<and> c \<le> 122) \<or> c = 46)"

function safe_name :: "pystr \<Rightarrow> pystr" where
  "safe_name [] = []"
| "safe_name (c # cs) =
     (if is_safe_char c then c # safe_name cs
      else 45 # safe_name (dropWhile (\<lambda>x. \<not> is_safe_char x) cs))"
  by pat_completeness auto
termination
  by (relation "measure length") (auto simp: less_Suc_eq_le length_dropWhile_le)

text \<open>\<open>ModelfileDistribution.__init__\<close>: the location is the modelfile's path, the
  project name the safe name of \<open>_modelfile_project_name(modelfile) or 'Unknown'\<close>. The
  entry map, which no property below reads, is left out.\<close>

definition ModelfileDistribution_init :: "env \<Rightarrow> modelfile \<Rightarrow> py_error + ModelfileDistribution" where
  "ModelfileDistribution_init e mf =
     (case modelfile_project_name e mf of
        Inl err \<Rightarrow> Inl err
      | Inr pn \<Rightarrow>
          Inr \<lparr>mfd_project_name = safe_name (if pn = [] then ustr ''Unknown'' else pn),
               mfd_location = src mf,
               mfd_modelfile = mf\<rparr>)"

section \<open>The provenance reference of a model\<close>

text \<open>\<open>_modelfile_hash\<close>: only \<open>IOError\<close> is caught.\<close>

definition modelfile_hash :: "env \<Rightarrow> pystr \<Rightarrow> trace \<Rightarrow> (py_error + pystr) \<times> trace" where
  "modelfile_hash e path tr =
     (case read_bytes e path of
        Inl IOError \<Rightarrow> (Inr (ustr ''-''), tr @ [ReadBytes path, WarnUnableToReadHash path])
      | Inl err \<Rightarrow> (Inl err, tr @ [ReadBytes path])
      | Inr path_bytes \<Rightarrow> (Inr (md5_hexdigest e path_bytes), tr @ [ReadBytes path]))"

text \<open>\<open>_modelfile_dist_ref\<close>.\<close>

definition modelfile_dist_ref :: "env \<Rightarrow> modelfile \<Rightarrow> trace \<Rightarrow> (py_error + pystr) \<times> trace" where
  "modelfile_dist_ref e mf tr =
     (let path = abspath e (src mf)
      in case modelfile_hash e path tr of
           (Inl err, tr') \<Rightarrow> (Inl err, tr')
         | (Inr h, tr') \<Rightarrow> (Inr (path @ ustr '' '' @ h), tr'))"

text \<open>\<open>Model.reference\<close>: a distribution without a \<open>modelfile\<close> attribute is a package
  distribution, formatted with \<open>%s\<close>, that is with \<open>str\<close>.\<close>

definition reference :: "env \<Rightarrow> Model \<Rightarrow> trace \<Rightarrow> (py_error + pystr) \<times> trace" where
  "reference e m tr =
     (case dist m of
        PackageDist d \<Rightarrow> (Inr (ustr ''dist:'' @ Distribution_str d @ ustr '' '' @ name m), tr)
      | ModelfileDist mfd \<Rightarrow>
          (case modelfile_dist_ref e (mfd_modelfile mfd) tr of
             (Inl err, tr') \<Rightarrow> (Inl err, tr')
           | (Inr ref, tr') \<Rightarrow> (Inr (ustr ''file:'' @ ref @ ustr '' '' @ name m), tr')))"

section \<open>The flag value codec (guild/flag\_util.py)\<close>

text \<open>The values a flag can hold. A float is carried as its IEEE 754 bit pattern; the
  module hands floats to \<open>yaml\<close> and never looks inside.\<close>

datatype pyval =
    PyNone
  | PyBool bool
  | PyInt int
  | PyFloat nat
  | PyStr pystr
  | PyList "pyval list"
  | PyDict "(pyval \<times> pyval) list"

text \<open>
  What the codec takes from outside the module: \<open>yaml.safe_dump\<close> and \<open>yaml.safe_load\<close>
  of PyYAML, whether \<open>float(s)\<close> accepts a string, the decimal value of a non-ASCII
  Unicode digit (\<open>int\<close> accepts every decimal digit of Unicode), and \<open>sorted\<close> on the
  items of a dict, which orders them by key and raises \<open>TypeError\<close> on keys that do not
  compare; each item carries its encoded key and value along.
\<close>

record flag_env =
  yaml_safe_dump :: "pyval \<Rightarrow> pystr"
  yaml_safe_load :: "pystr \<Rightarrow> py_error + pyval"
  float_parses :: "pystr \<Rightarrow> bool"
  unicode_decimal :: "nat \<Rightarrow> nat option"
  sorted_items :: "(pyval \<times> pystr \<times> pystr) list \<Rightarrow> py_error + (pyval \<times> pystr \<times> pystr) list"

text \<open>The white space of \<open>str.strip()\<close> and the pattern \<open>\\s\<close>: the code points for
  which \<open>str.isspace\<close> holds.\<close>

definition is_space :: "nat \<Rightarrow> bool" where
  "is_space c =
     ((9 \<le> c \<and> c \<le> 13) \<or> (28 \<le> c \<and> c \<le> 32) \<or> c = 0x85 \<or> c = 0xA0 \<or> c = 0x1680
      \<or> (0x2000 \<le> c \<and> c \<le> 0x200A) \<or> c = 0x2028 \<or> c = 0x2029 \<or> c = 0x202F
      \<or> c = 0x205F \<or> c = 0x3000)"

definition str_strip :: "pystr \<Rightarrow> pystr" where
  "str_strip s = rev (dropWhile is_space (rev (dropWhile is_space s)))"

text \<open>The white space \<open>int()\<close> skips around a literal: the ASCII white space of C
  (tab to carriage return, and the space) and the white space outside ASCII; unlike
  \<open>str.strip()\<close> it does not skip the separators \<open>U+001C\<close> to \<open>U+001F\<close>.\<close>

definition is_int_space :: "nat \<Rightarrow> bool" where
  "is_int_space c =
     ((9 \<le> c \<and> c \<le> 13) \<or> c = 32 \<or> c = 0x85 \<or> c = 0xA0 \<or> c = 0x1680
      \<or> (0x2000 \<le> c \<and> c \<le> 0x200A) \<or> c = 0x2028 \<or> c = 0x2029 \<or> c = 0x202F
      \<or> c = 0x205F \<or> c = 0x3000)"

definition int_strip :: "pystr \<Rightarrow> pystr" where
  "int_strip s = rev (dropWhile is_int_space (rev (dropWhile is_int_space s)))"

text \<open>\<open>str(i)\<close> of an integer: the decimal digits, after a minus sign when it is
  negative. (Python 3.11 and later refuse integers of more than 4300 digits; the module
  is older and the limit is not modelled.)\<close>

fun digits10 :: "nat \<Rightarrow> pystr" where
  "digits10 n = (if n < 10 then [48 + n] else digits10 (n div 10) @ [48 + n mod 10])"

declare digits10.simps [simp del]

definition str_int :: "int \<Rightarrow> pystr" where
  "str_int i = (if i < 0 then 45 # digits10 (nat (- i)) else digits10 (nat i))"

text \<open>\<open>int(s)\<close> of a string, base 10: white space around, an optional sign, decimal
  digits with single underscores between them.\<close>

definition digit_value :: "flag_env \<Rightarrow> nat \<Rightarrow> nat option" where
  "digit_value fe c =
     (if 48 \<le> c \<and> c \<le> 57 then Some (c - 48)
      else if c < 128 then None
      else unicode_decimal fe c)"

fun int_digits :: "flag_env \<Rightarrow> pystr \<Rightarrow> bool \<Rightarrow> nat \<Rightarrow> nat option" where
  "int_digits fe [] prev_digit acc = (if prev_digit then Some acc else None)"
| "int_digits fe (c # cs) prev_digit acc =
     (if c = 95 then (if prev_digit then int_digits fe cs False acc else None)
      else (case digit_value fe c of
              None \<Rightarrow> None
            | Some d \<Rightarrow> int_digits fe cs True (10 * acc + d)))"

definition py_int :: "flag_env \<Rightarrow> pystr \<Rightarrow> py_error + int" where
  "py_int fe s =
     (let t = int_strip s;
          (neg, ds) = (case t of
                         c # r \<Rightarrow> if c = 45 then (True, r) else if c = 43 then (False, r)
                                  else (False, t)
                       | [] \<Rightarrow> (False, t))
      in case int_digits fe ds False 0 of
           None \<Rightarrow> Inl (ValueError (ustr ''invalid literal for int() with base 10''))
         | Some n \<Rightarrow> Inr (if neg then - int n else int n))"

text \<open>The results of a comprehension whose element expression can raise: the first
  error is the error of the whole.\<close>

fun sequence :: "(py_error + 'a) list \<Rightarrow> py_error + 'a list" where
  "sequence [] = Inr []"
| "sequence (Inl err # _) = Inl err"
| "sequence (Inr x # rs) = (case sequence rs of Inl err \<Rightarrow> Inl err | Inr xs \<Rightarrow> Inr (x # xs))"

text \<open>\<open>_strip_yaml\<close>, \<open>_yaml_encode\<close>, \<open>_quote_float\<close> and \<open>_encode_str\<close>.\<close>

definition strip_yaml :: "pystr \<Rightarrow> pystr" where
  "strip_yaml s = (if endswith s (10 # ustr ''...'') then take (length s - 4) s else s)"

definition yaml_encode :: "flag_env \<Rightarrow> pyval \<Rightarrow> pystr" where
  "yaml_encode fe val = strip_yaml (str_strip (yaml_safe_dump fe val))"

definition quote_float :: "flag_env \<Rightarrow> pystr \<Rightarrow> pystr" where
  "quote_float fe s = (if float_parses fe s then [39] @ s @ [39] else s)"

definition encode_str :: "flag_env \<Rightarrow> pystr \<Rightarrow> pystr" where
  "encode_str fe s = quote_float fe (yaml_encode fe (PyStr s))"

text \<open>\<open>encode_flag_val\<close> with \<open>_encode_list\<close> and \<open>_encode_dict\<close>. The tests run in
  the order of the source: \<open>True\<close>, \<open>False\<close>, \<open>None\<close>, list, float, string, dict, and
  \<open>str(val)\<close> for what is left, the integers.\<close>

function (sequential) encode_flag_val :: "flag_env \<Rightarrow> pyval \<Rightarrow> py_error + pystr"
  and encode_list_items :: "flag_env \<Rightarrow> pyval list \<Rightarrow> py_error + pystr list"
  and encode_dict_items ::
    "flag_env \<Rightarrow> (pyval \<times> pyval) list \<Rightarrow> py_error + (pyval \<times> pystr \<times> pystr) list" where
  "encode_flag_val fe (PyBool b) = Inr (if b then ustr ''yes'' else ustr ''no'')"
| "encode_flag_val fe PyNone = Inr (ustr ''null'')"
| "encode_flag_val fe (PyList val_list) =
     (case encode_list_items fe val_list of
        Inl err \<Rightarrow> Inl err
      | Inr enc \<Rightarrow> Inr (ustr ''['' @ str_join (ustr '', '') enc @ ustr '']''))"
| "encode_flag_val fe (PyFloat f) = Inr (yaml_encode fe (PyFloat f))"
| "encode_flag_val fe (PyStr s) = Inr (encode_str fe s)"
| "encode_flag_val fe (PyDict d) =
     (case encode_dict_items fe d of
        Inl err \<Rightarrow> Inl err
      | Inr items \<Rightarrow>
          (case sorted_items fe items of
             Inl err \<Rightarrow> Inl err
           | Inr encoded_kv \<Rightarrow>
               Inr (ustr ''{'' @ str_join (ustr '', '')
                      (map (\<lambda>(_, k, v). k @ ustr '': '' @ v) encoded_kv) @ ustr ''}'')))"
| "encode_flag_val fe (PyInt i) = Inr (str_int i)"
| "encode_list_items fe [] = Inr []"
| "encode_list_items fe (v # vs) =
     (case encode_flag_val fe v of
        Inl err \<Rightarrow> Inl err
      | Inr x \<Rightarrow> (case encode_list_items fe vs of Inl err \<Rightarrow> Inl err | Inr xs \<Rightarrow> Inr (x # xs)))"
| "encode_dict_items fe [] = Inr []"
| "encode_dict_items fe ((k, v) # kvs) =
     (case encode_flag_val fe k of
        Inl err \<Rightarrow> Inl err
      | Inr ek \<Rightarrow>
          (case encode_flag_val fe v of
             Inl err \<Rightarrow> Inl err
           | Inr ev \<Rightarrow>
               (case encode_dict_items fe kvs of
                  Inl err \<Rightarrow> Inl err
                | Inr r \<Rightarrow> Inr ((k, ek, ev) # r))))"
  by pat_completeness auto
termination
  by (relation "measure (\<lambda>x. case x of
          Inl (fe, v) \<Rightarrow> size v
        | Inr (Inl (fe, vs)) \<Rightarrow> size_list size vs
        | Inr (Inr (fe, kvs)) \<Rightarrow> size_list (size_prod size size) kvs)") auto

text \<open>
  \<open>FUNCTION_P.match(s)\<close> for the pattern \<open>([a-zA-Z0-9_\\-\\.]*)\\[(.*)\\]\\s*$\<close>: the
  longest run of name characters, an opening bracket, then the text up to the last
  closing bracket, which must hold no newline, and only white space after that bracket.
  The result is the two groups.
\<close>

definition is_name_char :: "nat \<Rightarrow> bool" where
  "is_name_char c =
     ((97 \<le> c \<and> c \<le> 122) \<or> (65 \<le> c \<and> c \<le> 90) \<or> (48 \<le> c \<and> c \<le> 57)
      \<or> c = 95 \<or> c = 45 \<or> c = 46)"

definition FUNCTION_P_match :: "pystr \<Rightarrow> (pystr \<times> pystr) option" where
  "FUNCTION_P_match s =
     (let g1 = takeWhile is_name_char s
      in case dropWhile is_name_char s of
           [] \<Rightarrow> None
         | c # r \<Rightarrow>
             if c = 91 \<and> 93 \<in> set r then
               (let tail = rev (takeWhile (\<lambda>x. x \<noteq> 93) (rev r));
                    g2 = take (length r - length tail - 1) r
                in if list_all is_space tail \<and> 10 \<notin> set g2 then Some (g1, g2) else None)
             else None)"

lemma FUNCTION_P_match_shorter:
  "FUNCTION_P_match s = Some (g1, g2) \<Longrightarrow> length g2 < length s"
proof -
  assume a: "FUNCTION_P_match s = Some (g1, g2)"
  obtain c r where d: "dropWhile is_name_char s = c # r"
    using a by (cases "dropWhile is_name_char s") (auto simp: FUNCTION_P_match_def)
  have "length (c # r) \<le> length s"
    unfolding d[symmetric] by (rule length_dropWhile_le)
  moreover have "length g2 \<le> length r"
    using a d by (auto simp: FUNCTION_P_match_def Let_def split: if_splits)
  ultimately show ?thesis by simp
qed

lemma length_str_strip: "length (str_strip s) \<le> length s"
  unfolding str_strip_def
  by (metis length_dropWhile_le length_rev order_trans)

lemma str_split_shorter: "a \<in> set (str_split c s) \<Longrightarrow> length a \<le> length s"
proof (induction s arbitrary: a)
  case Nil
  then show ?case by simp
next
  case (Cons x xs)
  then show ?case
    by (cases "str_split c xs") (auto split: if_splits, fastforce+)
qed

text \<open>\<open>decode_flag_val\<close>, \<open>_yaml_parse\<close> and \<open>decode_flag_function\<close>, which call each
  other; every call from \<open>decode_flag_function\<close> is on a shorter string.\<close>

function decode_flag_val :: "flag_env \<Rightarrow> pystr \<Rightarrow> py_error + pyval"
  and yaml_parse :: "flag_env \<Rightarrow> pystr \<Rightarrow> py_error + pyval"
  and decode_flag_function :: "flag_env \<Rightarrow> pystr \<Rightarrow> py_error + (pystr option \<times> pyval list)" where
  "decode_flag_val fe s =
     (if s = [] then Inr (PyStr s)
      else (case py_int fe s of
              Inr i \<Rightarrow> Inr (PyInt i)
            | Inl err \<Rightarrow>
                if \<not> is_ValueError err then Inl err
                else (case yaml_parse fe s of
                        Inr v \<Rightarrow> Inr v
                      | Inl err2 \<Rightarrow>
                          if is_ValueError err2 \<or> err2 = YAMLError then Inr (PyStr s)
                          else Inl err2)))"
| "yaml_parse fe s =
     (case decode_flag_function fe s of
        Inl err \<Rightarrow> if is_ValueError err then yaml_safe_load fe s else Inl err
      | Inr (nm, args) \<Rightarrow>
          if nm = None \<and> length args \<ge> 2 then Inr (PyStr s) else yaml_safe_load fe s)"
| "decode_flag_function fe s =
     (case FUNCTION_P_match s of
        None \<Rightarrow> Inl (ValueError (ustr ''not a function''))
      | Some (g1, g2) \<Rightarrow>
          (let nm = (if g1 = [] then None else Some g1);
               args_raw = str_strip g2;
               args_s = (if args_raw \<noteq> [] then str_split 58 args_raw else [])
           in case sequence (map (\<lambda>arg. decode_flag_val fe (str_strip arg)) args_s) of
                Inl err \<Rightarrow> Inl err
              | Inr args \<Rightarrow> Inr (nm, args)))"
  by pat_completeness auto
termination
proof (relation "measure (\<lambda>x. case x of
          Inl (fe, s) \<Rightarrow> 3 * length s + 2
        | Inr (Inl (fe, s)) \<Rightarrow> 3 * length s + 1
        | Inr (Inr (fe, s)) \<Rightarrow> 3 * length s)", goal_cases)
  case 1
  show ?case by simp
next
  case (2 fe s err)
  show ?case by simp
next
  case (3 fe s)
  show ?case by simp
next
  case (4 fe s x2 g1 g2 nm args_raw args_s arg)
  have "length (str_strip arg) \<le> length arg" by (rule length_str_strip)
  moreover have "length arg \<le> length args_raw"
    using 4 by (auto dest: str_split_shorter split: if_splits)
  moreover have "length args_raw \<le> length g2"
    using 4 by (simp add: length_str_strip)
  moreover have "length g2 < length s"
  proof -
    have "FUNCTION_P_match s = Some (g1, g2)" using 4 by simp
    then show ?thesis by (rule FUNCTION_P_match_shorter)
  qed
  ultimately show ?case by simp
qed

declare decode_flag_val.simps [simp del] yaml_parse.simps [simp del]
  decode_flag_function.simps [simp del]

chapter \<open>Properties\<close>

section \<open>Loading the definitions of a package distribution\<close>

text \<open>
  What the loop of \<open>_load_dist_modeldefs\<close> computes, said without the loop: the path of
  a manifest line is its first comma-delimited field; the matched files are the paths
  whose base name is a recognised name, joined to the location, in manifest order; a
  file contributes the definitions the loader returns for it, none when the loader
  fails; and it leaves the load in the trace, followed by a warning when the loader
  fails.
\<close>

definition record_path :: "pystr \<Rightarrow> pystr" where
  "record_path line = takeWhile (\<lambda>c. c \<noteq> of_char CHR '','') line"

definition matched_paths :: "env \<Rightarrow> Distribution \<Rightarrow> pystr list \<Rightarrow> pystr list" where
  "matched_paths e d lines =
     map (\<lambda>l. join (location d) (record_path l))
       (filter (\<lambda>l. basename (record_path l) \<in> set (NAMES e)) lines)"

definition loaded :: "env \<Rightarrow> pystr \<Rightarrow> modeldef list" where
  "loaded e p = (case from_file e p of Inl _ \<Rightarrow> [] | Inr ms \<Rightarrow> ms)"

definition load_events :: "env \<Rightarrow> pystr \<Rightarrow> trace" where
  "load_events e p =
     FromFile p # (case from_file e p of Inl err \<Rightarrow> [WarnUnableToLoad p err] | Inr _ \<Rightarrow> [])"

lemma getitem0_str_split1:
  "getitem0 (str_split1 c line) = Inr (takeWhile (\<lambda>x. x \<noteq> c) line)"
proof (induction line)
  case Nil
  show ?case by (simp add: getitem0_def)
next
  case (Cons x xs)
  then show ?case
    by (cases "str_split1 c xs") (auto simp: getitem0_def)
qed

lemma try_acc_modeldefs_eq:
  "try_acc_modeldefs e p acc tr = (acc @ loaded e p, tr @ load_events e p)"
  by (cases "from_file e p") (simp_all add: try_acc_modeldefs_def loaded_def load_events_def)

lemma load_record_lines_eq:
  "load_record_lines e d lines acc tr =
     (Inr (acc @ concat (map (loaded e) (matched_paths e d lines))),
      tr @ concat (map (load_events e) (matched_paths e d lines)))"
proof (induction lines arbitrary: acc tr)
  case Nil
  show ?case by (simp add: matched_paths_def)
next
  case (Cons line rest)
  have g: "getitem0 (str_split1 (of_char CHR '','') line) = Inr (record_path line)"
    unfolding record_path_def by (rule getitem0_str_split1)
  show ?case
  proof (cases "basename (record_path line) \<in> set (NAMES e)")
    case True
    then have m: "matched_paths e d (line # rest)
        = join (location d) (record_path line) # matched_paths e d rest"
      by (simp add: matched_paths_def)
    show ?thesis
      unfolding m using True g
      by (simp add: try_acc_modeldefs_eq Cons.IH Let_def)
  next
    case False
    then have m: "matched_paths e d (line # rest) = matched_paths e d rest"
      by (simp add: matched_paths_def)
    show ?thesis
      unfolding m using False g by (simp add: Cons.IH)
  qed
qed

text \<open>
  Claim C4. When reading the manifest fails with \<open>IOError\<close>, loading returns the empty
  list, never an error, and logs the missing-manifest warning. When the manifest is
  read, loading returns the definitions of every matched file that parses, in order,
  and never an error; a matched file that fails to parse gives no definitions and a
  warning that names it, and does not stop the scan of the others.
\<close>

theorem load_dist_modeldefs_degrades:
  "(metadata_RECORD d = Inl IOError \<longrightarrow>
      load_dist_modeldefs e d tr =
        (Inr [], tr @ [GetMetadataLines (Distribution_str d),
                       WarnMissingRecord (Distribution_str d)]))
   \<and> (metadata_RECORD d = Inr lines \<longrightarrow>
      load_dist_modeldefs e d tr =
        (Inr (concat (map (loaded e) (matched_paths e d lines))),
         tr @ GetMetadataLines (Distribution_str d)
              # concat (map (load_events e) (matched_paths e d lines))))
   \<and> (\<forall>p\<in>set (matched_paths e d lines).
        (case from_file e p of
           Inl err \<Rightarrow> loaded e p = [] \<and> WarnUnableToLoad p err \<in> set (load_events e p)
         | Inr ms \<Rightarrow> loaded e p = ms \<and> load_events e p = [FromFile p]))"
proof -
  have a: "metadata_RECORD d = Inl IOError \<longrightarrow>
      load_dist_modeldefs e d tr =
        (Inr [], tr @ [GetMetadataLines (Distribution_str d),
                       WarnMissingRecord (Distribution_str d)])"
    by (simp add: load_dist_modeldefs_def)
  have b: "metadata_RECORD d = Inr lines \<longrightarrow>
      load_dist_modeldefs e d tr =
        (Inr (concat (map (loaded e) (matched_paths e d lines))),
         tr @ GetMetadataLines (Distribution_str d)
              # concat (map (load_events e) (matched_paths e d lines)))"
    by (simp add: load_dist_modeldefs_def load_record_lines_eq)
  have c: "\<forall>p\<in>set (matched_paths e d lines).
        (case from_file e p of
           Inl err \<Rightarrow> loaded e p = [] \<and> WarnUnableToLoad p err \<in> set (load_events e p)
         | Inr ms \<Rightarrow> loaded e p = ms \<and> load_events e p = [FromFile p])"
    by (simp add: loaded_def load_events_def split: sum.split)
  from a b c show ?thesis by blast
qed

text \<open>A package with one definition file that parses, one that does not, and a file
  that is not a definition file.\<close>

definition example_net :: modeldef where
  "example_net = \<lparr>md_name = ustr ''net'', md_private = False, md_resources = []\<rparr>"

definition example_debug_net :: modeldef where
  "example_debug_net =
     \<lparr>md_name = ustr ''debug-net'', md_private = True, md_resources = []\<rparr>"

definition example_env :: env where
  "example_env =
     \<lparr>cwd = ustr ''/home/u'',
      NAMES = [ustr ''MODEL'', ustr ''MODELS''],
      from_file = (\<lambda>p. if p = ustr ''/site/pkg/MODEL'' then Inr [example_net, example_debug_net]
                        else if p = ustr ''/site/bad/MODEL'' then Inl (OtherError (ustr ''bad syntax''))
                        else Inl IOError),
      read_bytes = (\<lambda>p. if p = ustr ''/home/u/proj-a/MODEL'' then Inr ''net'' else Inl IOError),
      md5_hexdigest = (\<lambda>b. ustr ''83a5a282f092aa7baf6982b54227bb54'')\<rparr>"

definition example_record :: "pystr list" where
  "example_record =
     [ustr ''pkg/MODEL,sha256=abc,120'', ustr ''bad/MODEL,,'', ustr ''pkg/__init__.py,,'']"

definition example_dist :: Distribution where
  "example_dist =
     \<lparr>project_name = ustr ''pkg'', version = Some (ustr ''1.0''), location = ustr ''/site'',
      metadata_RECORD = Inr example_record, attrs = Map.empty\<rparr>"

lemma example_matched_paths:
  "location d = ustr ''/site'' \<Longrightarrow>
   matched_paths example_env d example_record = [ustr ''/site/pkg/MODEL'', ustr ''/site/bad/MODEL'']"
  by (simp add: matched_paths_def example_record_def example_env_def record_path_def
        basename_def rfind_def join_def startswith_def endswith_def SEP_def ustr_def)

lemma example_loaded:
  "loaded example_env (ustr ''/site/pkg/MODEL'') = [example_net, example_debug_net]"
  "loaded example_env (ustr ''/site/bad/MODEL'') = []"
  by (simp_all add: loaded_def example_env_def ustr_def)

lemma example_load_events:
  "load_events example_env (ustr ''/site/pkg/MODEL'') = [FromFile (ustr ''/site/pkg/MODEL'')]"
  "load_events example_env (ustr ''/site/bad/MODEL'') =
     [FromFile (ustr ''/site/bad/MODEL''),
      WarnUnableToLoad (ustr ''/site/bad/MODEL'') (OtherError (ustr ''bad syntax''))]"
  by (simp_all add: load_events_def example_env_def ustr_def)

lemma example_Distribution_str:
  "project_name d = ustr ''pkg'' \<Longrightarrow> version d = Some (ustr ''1.0'') \<Longrightarrow>
   Distribution_str d = ustr ''pkg 1.0''"
  by (simp add: Distribution_str_def ustr_def)

definition example_trace :: trace where
  "example_trace =
     [GetMetadataLines (ustr ''pkg 1.0''),
      FromFile (ustr ''/site/pkg/MODEL''),
      FromFile (ustr ''/site/bad/MODEL''),
      WarnUnableToLoad (ustr ''/site/bad/MODEL'') (OtherError (ustr ''bad syntax''))]"

theorem load_dist_modeldefs_degrades_witness:
  "metadata_RECORD example_dist = Inr example_record
   \<and> load_dist_modeldefs example_env example_dist [] =
       (Inr [example_net, example_debug_net], example_trace)
   \<and> metadata_RECORD (example_dist\<lparr>metadata_RECORD := Inl IOError\<rparr>) = Inl IOError
   \<and> load_dist_modeldefs example_env (example_dist\<lparr>metadata_RECORD := Inl IOError\<rparr>) [] =
       (Inr [], [GetMetadataLines (ustr ''pkg 1.0''), WarnMissingRecord (ustr ''pkg 1.0'')])"
proof -
  have r: "metadata_RECORD example_dist = Inr example_record"
    by (simp add: example_dist_def)
  have l: "location example_dist = ustr ''/site''"
    by (simp add: example_dist_def)
  have s: "Distribution_str example_dist = ustr ''pkg 1.0''"
    by (rule example_Distribution_str) (simp_all add: example_dist_def)
  have s': "Distribution_str (example_dist\<lparr>metadata_RECORD := Inl IOError\<rparr>) = ustr ''pkg 1.0''"
    by (rule example_Distribution_str) (simp_all add: example_dist_def)
  have a: "load_dist_modeldefs example_env example_dist [] =
       (Inr [example_net, example_debug_net], example_trace)"
    using load_dist_modeldefs_degrades[of example_dist example_env "[]" example_record] r
    by (simp add: example_matched_paths[OF l] example_loaded example_load_events s
          example_trace_def)
  have b: "load_dist_modeldefs example_env (example_dist\<lparr>metadata_RECORD := Inl IOError\<rparr>) [] =
       (Inr [], [GetMetadataLines (ustr ''pkg 1.0''), WarnMissingRecord (ustr ''pkg 1.0'')])"
    using load_dist_modeldefs_degrades[of "example_dist\<lparr>metadata_RECORD := Inl IOError\<rparr>"
        example_env "[]" example_record]
    by (simp add: s')
  from r a b show ?thesis by simp
qed

section \<open>The cache of loaded definitions\<close>

text \<open>Nothing sets an attribute named \<open>_modelefs\<close>, so the test of
  \<open>_ensure_dist_modeldefs\<close> never finds it: every call loads again.\<close>

lemma ensure_reloads:
  assumes "\<not> hasattr d ''_modelefs''"
  shows "ensure_dist_modeldefs e d tr =
     (case load_dist_modeldefs e d tr of
        (Inl err, tr') \<Rightarrow> (Inl err, d, tr')
      | (Inr defs, tr') \<Rightarrow> (Inr defs, setattr d ''_modeldefs'' defs, tr'))"
  using assms
  by (auto simp: ensure_dist_modeldefs_def getattr_def setattr_def split: prod.splits sum.splits)

lemma ensure_keeps_typo_attr_absent:
  assumes "\<not> hasattr d ''_modelefs''" "ensure_dist_modeldefs e d tr = (r, d', tr')"
  shows "\<not> hasattr d' ''_modelefs''"
  using assms
  by (auto simp: ensure_dist_modeldefs_def getattr_def setattr_def hasattr_def
       split: prod.splits sum.splits if_splits)


text \<open>
  Claim C7 asks that a second call return the cached list without loading again. On the
  example package the first call stores the list in \<open>_modeldefs\<close>; the second call, on
  the distribution the first one left, reads the manifest and both definition files a
  second time: its trace is the first call's trace twice.
\<close>

theorem ensure_dist_modeldefs_rescans:
  "ensure_dist_modeldefs example_env example_dist [] =
     (Inr [example_net, example_debug_net],
      setattr example_dist ''_modeldefs'' [example_net, example_debug_net],
      example_trace)
   \<and> ensure_dist_modeldefs example_env
        (setattr example_dist ''_modeldefs'' [example_net, example_debug_net]) example_trace =
     (Inr [example_net, example_debug_net],
      setattr example_dist ''_modeldefs'' [example_net, example_debug_net],
      example_trace @ example_trace)"
proof -
  let ?defs = "[example_net, example_debug_net]"
  let ?d1 = "setattr example_dist ''_modeldefs'' ?defs"
  have h0: "\<not> hasattr example_dist ''_modelefs''"
    by (simp add: hasattr_def example_dist_def)
  have h1: "\<not> hasattr ?d1 ''_modelefs''"
    by (simp add: hasattr_def setattr_def example_dist_def)
  have l0: "location example_dist = ustr ''/site''"
    by (simp add: example_dist_def)
  have l1: "location ?d1 = ustr ''/site''"
    by (simp add: example_dist_def setattr_def)
  have s0: "Distribution_str example_dist = ustr ''pkg 1.0''"
    by (rule example_Distribution_str) (simp_all add: example_dist_def)
  have s1: "Distribution_str ?d1 = ustr ''pkg 1.0''"
    by (rule example_Distribution_str) (simp_all add: example_dist_def setattr_def)
  have r0: "metadata_RECORD example_dist = Inr example_record"
    by (simp add: example_dist_def)
  have r1: "metadata_RECORD ?d1 = Inr example_record"
    by (simp add: example_dist_def setattr_def)
  have a: "load_dist_modeldefs example_env example_dist [] = (Inr ?defs, example_trace)"
    by (simp add: load_dist_modeldefs_def load_record_lines_eq example_matched_paths[OF l0]
          example_loaded example_load_events s0 r0 example_trace_def)
  have b: "load_dist_modeldefs example_env ?d1 example_trace
             = (Inr ?defs, example_trace @ example_trace)"
    by (simp add: load_dist_modeldefs_def load_record_lines_eq example_matched_paths[OF l1]
          example_loaded example_load_events s1 r1 example_trace_def)
  have c: "setattr ?d1 ''_modeldefs'' ?defs = ?d1"
    by (simp add: setattr_def)
  show ?thesis
    by (simp add: ensure_reloads[OF h0] ensure_reloads[OF h1] a b c)
qed


section \<open>Resolving a name within one distribution\<close>

text \<open>\<open>first_match n ms m\<close>: \<open>m\<close> is the first definition of \<open>ms\<close> named \<open>n\<close>.\<close>

definition first_match :: "pystr \<Rightarrow> modeldef list \<Rightarrow> modeldef \<Rightarrow> bool" where
  "first_match n ms m =
     (\<exists>pre post. ms = pre @ m # post \<and> md_name m = n \<and> list_all (\<lambda>x. md_name x \<noteq> n) pre)"

lemma get_model_loop_first:
  "(case get_model_loop ms n of
      Inr m \<Rightarrow> first_match n ms m
    | Inl err \<Rightarrow> err = ValueError n \<and> n \<notin> md_name ` set ms)"
proof (induction ms)
  case Nil
  show ?case by simp
next
  case (Cons a ms)
  show ?case
  proof (cases "md_name a = n")
    case True
    have "first_match n (a # ms) a"
      unfolding first_match_def using True by (intro exI[of _ "[]"] exI[of _ ms]) simp
    with True show ?thesis by simp
  next
    case False
    show ?thesis
    proof (cases "get_model_loop ms n")
      case (Inl err)
      with Cons False show ?thesis by simp
    next
      case (Inr m)
      with Cons have "first_match n ms m" by simp
      then obtain pre post where ms: "ms = pre @ m # post" and nm: "md_name m = n"
        and pre: "list_all (\<lambda>x. md_name x \<noteq> n) pre"
        unfolding first_match_def by blast
      have "first_match n (a # ms) m"
        unfolding first_match_def
        using ms nm pre False by (intro exI[of _ "a # pre"] exI[of _ post]) simp
      with Inr False show ?thesis by simp
    qed
  qed
qed

lemma modeldef_for_dist_loop_first:
  "(case modeldef_for_dist_loop ms n of
      Inr m \<Rightarrow> first_match n ms m
    | Inl err \<Rightarrow> err = ValueError (ustr ''undefined model '' @ [39] @ n @ [39])
        \<and> n \<notin> md_name ` set ms)"
proof (induction ms)
  case Nil
  show ?case by simp
next
  case (Cons a ms)
  show ?case
  proof (cases "md_name a = n")
    case True
    have "first_match n (a # ms) a"
      unfolding first_match_def using True by (intro exI[of _ "[]"] exI[of _ ms]) simp
    with True show ?thesis by simp
  next
    case False
    show ?thesis
    proof (cases "modeldef_for_dist_loop ms n")
      case (Inl err)
      with Cons False show ?thesis by simp
    next
      case (Inr m)
      with Cons have "first_match n ms m" by simp
      then obtain pre post where ms: "ms = pre @ m # post" and nm: "md_name m = n"
        and pre: "list_all (\<lambda>x. md_name x \<noteq> n) pre"
        unfolding first_match_def by blast
      have "first_match n (a # ms) m"
        unfolding first_match_def
        using ms nm pre False by (intro exI[of _ "a # pre"] exI[of _ post]) simp
      with Inr False show ?thesis by simp
    qed
  qed
qed

text \<open>
  Claim C5. \<open>get_model\<close> of a file-backed distribution returns the first definition, in
  the file's declaration order, whose name is the requested one, and fails with
  \<open>ValueError(name)\<close> exactly when no definition has that name. Resolving a name against
  a package-backed distribution does the same over its loaded definitions, in scan
  order, and fails with \<open>ValueError("undefined model 'name'")\<close> when the name is absent.
\<close>

theorem get_model_first_match:
  "(case get_model mfd n of
      Inr m \<Rightarrow> first_match n (models (mfd_modelfile mfd)) m
    | Inl err \<Rightarrow> err = ValueError n \<and> n \<notin> md_name ` set (models (mfd_modelfile mfd)))
   \<and> modeldef_for_dist e n (ModelfileDist mfd) tr = (get_model mfd n, ModelfileDist mfd, tr)
   \<and> (case ensure_dist_modeldefs e d tr of
        (Inl err, d', tr') \<Rightarrow>
          modeldef_for_dist e n (PackageDist d) tr = (Inl err, PackageDist d', tr')
      | (Inr defs, d', tr') \<Rightarrow>
          (case modeldef_for_dist e n (PackageDist d) tr of
             (res, dd, tt) \<Rightarrow>
               dd = PackageDist d' \<and> tt = tr' \<and>
               (case res of
                  Inr m \<Rightarrow> first_match n defs m
                | Inl err \<Rightarrow>
                    err = ValueError (ustr ''undefined model '' @ [39] @ n @ [39])
                    \<and> n \<notin> md_name ` set defs)))"
proof -
  have a: "(case get_model mfd n of
      Inr m \<Rightarrow> first_match n (models (mfd_modelfile mfd)) m
    | Inl err \<Rightarrow> err = ValueError n \<and> n \<notin> md_name ` set (models (mfd_modelfile mfd)))"
    unfolding get_model_def by (rule get_model_loop_first)
  have b: "modeldef_for_dist e n (ModelfileDist mfd) tr = (get_model mfd n, ModelfileDist mfd, tr)"
    by (simp add: modeldef_for_dist_def)
  obtain r d' tr' where ens: "ensure_dist_modeldefs e d tr = (r, d', tr')"
    by (cases "ensure_dist_modeldefs e d tr") auto
  have c: "(case ensure_dist_modeldefs e d tr of
        (Inl err, d', tr') \<Rightarrow>
          modeldef_for_dist e n (PackageDist d) tr = (Inl err, PackageDist d', tr')
      | (Inr defs, d', tr') \<Rightarrow>
          (case modeldef_for_dist e n (PackageDist d) tr of
             (res, dd, tt) \<Rightarrow>
               dd = PackageDist d' \<and> tt = tr' \<and>
               (case res of
                  Inr m \<Rightarrow> first_match n defs m
                | Inl err \<Rightarrow>
                    err = ValueError (ustr ''undefined model '' @ [39] @ n @ [39])
                    \<and> n \<notin> md_name ` set defs)))"
  proof (cases r)
    case (Inl err)
    with ens show ?thesis by (simp add: modeldef_for_dist_def)
  next
    case (Inr defs)
    with ens modeldef_for_dist_loop_first[where ms = defs and n = n] show ?thesis
      by (simp add: modeldef_for_dist_def)
  qed
  from a b c show ?thesis by simp
qed

section \<open>The search path\<close>

text \<open>
  Claim C8, as the code has it. \<open>add_model_path(r)\<close> never fails; it removes the first
  entry equal to \<open>r\<close>, when there is one, and inserts \<open>r\<close> at the front: the new search
  path is exactly \<open>r\<close> followed by the old path without its first \<open>r\<close>, and the cached
  index is discarded. So \<open>r\<close> is the first element, every other entry keeps its place
  relative to the others, and \<open>r\<close> occurs \<open>max 1 k\<close> times where \<open>k\<close> counts its
  occurrences before the call: exactly once when the path held it at most once.
\<close>

theorem add_model_path_front:
  "add_model_path r root =
     Inr (r\<lparr>search_path := root # remove1 root (search_path r), index := None\<rparr>)
   \<and> count_list (root # remove1 root (search_path r)) root
       = max 1 (count_list (search_path r) root)"
proof -
  have c: "root \<in> set xs \<Longrightarrow> Suc (count_list (remove1 root xs) root) = count_list xs root" for xs
    by (induction xs) auto
  show ?thesis
  proof (cases "root \<in> set (search_path r)")
    case True
    then have "count_list (search_path r) root \<noteq> 0" by (simp add: count_list_0_iff)
    with True c[OF True] show ?thesis
      by (simp add: add_model_path_def list_remove_def list_insert0_def registry_set_path_def
        registry_path_def is_ValueError_def)
  next
    case False
    then have "count_list (search_path r) root = 0" by (simp add: count_list_0_iff)
    with False show ?thesis
      by (simp add: add_model_path_def list_remove_def list_insert0_def registry_set_path_def
        registry_path_def is_ValueError_def remove1_idem)
  qed
qed

text \<open>
  The claim as written fails on a path that holds the root twice, which \<open>set_path\<close>
  accepts: one occurrence is removed, one is inserted, and the root is there twice.
\<close>

theorem add_model_path_duplicate_counterexample:
  "(case add_model_path
           (set_path \<lparr>search_path = [], index = None\<rparr> [ustr ''a'', ustr ''a''])
           (ustr ''a'') of
      Inl _ \<Rightarrow> 0
    | Inr r' \<Rightarrow> count_list (get_path r') (ustr ''a'')) = 2"
  by (simp add: add_model_path_def list_remove_def list_insert0_def registry_set_path_def
        registry_path_def get_path_def set_path_def ustr_def)

section \<open>Private definitions\<close>

text \<open>
  Claim C6. In every registry state, a model whose definition is private is never
  yielded by \<open>iter_models\<close>, a model of the index whose definition is not private is
  yielded, and \<open>for_name\<close> at the name under which the index holds a model returns that
  model, private or not.
\<close>

theorem private_hidden_from_iteration_only:
  assumes "distinct (map fst (registry_resources scan r))"
    and "(n, m) \<in> set (registry_resources scan r)"
  shows "fst (for_name scan r n) = Inr m
    \<and> (m \<in> set (fst (iter_models scan r)) \<longleftrightarrow> \<not> md_private (modeldef m))"
proof -
  have "map_of (registry_resources scan r) n = Some m"
    using assms by simp
  then have a: "fst (for_name scan r n) = Inr m"
    by (simp add: for_name_def registry_for_name_def)
  have b: "m \<in> set (fst (iter_models scan r)) \<longleftrightarrow> \<not> md_private (modeldef m)"
    using assms(2) by (force simp: iter_models_def registry_iter_def)
  from a b show ?thesis by simp
qed

text \<open>The registry of the spec's scenario: \<open>./proj-a\<close> declares \<open>net\<close> and the
  private \<open>debug-net\<close>.\<close>

definition example_mfd :: ModelfileDistribution where
  "example_mfd =
     \<lparr>mfd_project_name = ustr ''.modelfile.2E2F70726F6A2D61'',
      mfd_location = ustr ''./proj-a/MODEL'',
      mfd_modelfile = \<lparr>src = ustr ''./proj-a/MODEL'', models = [example_net, example_debug_net]\<rparr>\<rparr>"

definition example_model_net :: Model where
  "example_model_net =
     \<lparr>name = ustr ''net'', dist = ModelfileDist example_mfd, modeldef = example_net,
      fullname_cache = None\<rparr>"

definition example_model_debug_net :: Model where
  "example_model_debug_net =
     \<lparr>name = ustr ''debug-net'', dist = ModelfileDist example_mfd, modeldef = example_debug_net,
      fullname_cache = None\<rparr>"

definition example_registry :: EntryPointResources where
  "example_registry =
     \<lparr>search_path = [ustr ''./proj-a'', ustr ''./proj-b''],
      index = Some [(ustr ''.modelfile.2E2F70726F6A2D61/debug-net'', example_model_debug_net),
                    (ustr ''.modelfile.2E2F70726F6A2D61/net'', example_model_net)]\<rparr>"

theorem private_hidden_from_iteration_only_witness:
  "distinct (map fst (registry_resources (\<lambda>_. []) example_registry))
   \<and> (ustr ''.modelfile.2E2F70726F6A2D61/debug-net'', example_model_debug_net)
        \<in> set (registry_resources (\<lambda>_. []) example_registry)
   \<and> md_private (modeldef example_model_debug_net)
   \<and> fst (for_name (\<lambda>_. []) example_registry (ustr ''.modelfile.2E2F70726F6A2D61/debug-net''))
        = Inr example_model_debug_net
   \<and> example_model_debug_net \<notin> set (fst (iter_models (\<lambda>_. []) example_registry))"
proof -
  have d: "distinct (map fst (registry_resources (\<lambda>_. []) example_registry))"
    by (simp add: registry_resources_def example_registry_def ustr_def)
  have m: "(ustr ''.modelfile.2E2F70726F6A2D61/debug-net'', example_model_debug_net)
        \<in> set (registry_resources (\<lambda>_. []) example_registry)"
    by (simp add: registry_resources_def example_registry_def)
  have p: "md_private (modeldef example_model_debug_net)"
    by (simp add: example_model_debug_net_def example_debug_net_def)
  from private_hidden_from_iteration_only[OF d m] d m p show ?thesis by simp
qed

section \<open>Escaping a path into a project name\<close>

text \<open>
  \<open>base64.b16encode\<close> writes every byte as two digits from \<open>0-9A-F\<close>, which
  \<open>base64.b16decode\<close> reads back; the digits are ASCII, so decoding them as UTF-8 gives
  them unchanged.
\<close>

definition b16_char :: "nat \<Rightarrow> char" where
  "b16_char d = hd (bytes_upper [hexlify_digit d])"

lemma b16_char_ok:
  assumes "d < 16"
  shows "is_b16_digit (b16_char d)" "hexval (b16_char d) = Some d"
    "(of_char (b16_char d) :: nat) < 128"
proof -
  from assms have "d = 0 \<or> d = 1 \<or> d = 2 \<or> d = 3 \<or> d = 4 \<or> d = 5 \<or> d = 6 \<or> d = 7
      \<or> d = 8 \<or> d = 9 \<or> d = 10 \<or> d = 11 \<or> d = 12 \<or> d = 13 \<or> d = 14 \<or> d = 15"
    by arith
  then have "is_b16_digit (b16_char d) \<and> hexval (b16_char d) = Some d
      \<and> (of_char (b16_char d) :: nat) < 128"
    by (elim disjE)
       (simp_all add: b16_char_def hexlify_digit_def bytes_upper_def is_b16_digit_def hexval_def)
  then show "is_b16_digit (b16_char d)" "hexval (b16_char d) = Some d"
    "(of_char (b16_char d) :: nat) < 128"
    by simp_all
qed

lemma b16encode_Nil: "b16encode [] = []"
  by (simp add: b16encode_def hexlify_def bytes_upper_def)

lemma b16encode_Cons:
  "b16encode (b # bs) = b16_char (of_char b div 16) # b16_char (of_char b mod 16) # b16encode bs"
  by (simp add: b16encode_def hexlify_def bytes_upper_def b16_char_def)

lemma byte_split: "(of_char (b::char) :: nat) div 16 < 16" "(of_char b :: nat) mod 16 < 16"
proof -
  have "(of_char b :: nat) < 256" by simp
  then show "(of_char b :: nat) div 16 < 16" by arith
  show "(of_char b :: nat) mod 16 < 16" by simp
qed

lemma char_of_div_mod: "char_of (16 * ((of_char b :: nat) div 16) + of_char b mod 16) = b"
  by simp

lemma unhexlify_b16encode: "unhexlify (b16encode bs) = Inr bs"
  by (induction bs)
     (simp_all add: b16encode_Nil b16encode_Cons b16_char_ok byte_split char_of_div_mod)

lemma b16encode_digits: "list_all is_b16_digit (b16encode bs)"
  by (induction bs) (simp_all add: b16encode_Nil b16encode_Cons b16_char_ok byte_split)

lemma b16encode_ascii: "list_all (\<lambda>c. (of_char c :: nat) < 128) (b16encode bs)"
  by (induction bs) (simp_all add: b16encode_Nil b16encode_Cons b16_char_ok byte_split)

lemma utf8_decode_ascii:
  "list_all (\<lambda>c. (of_char c :: nat) < 128) bs \<Longrightarrow> utf8_decode bs = Inr (map of_char bs)"
  by (induction bs) (simp_all add: utf8_decode_one_def)

lemma escape_project_name_eq:
  "escape_project_name p =
     (case utf8_encode p of Inl err \<Rightarrow> Inl err | Inr bs \<Rightarrow> Inr (map of_char (b16encode bs)))"
  by (simp add: escape_project_name_def utf8_decode_ascii b16encode_ascii split: sum.split)

lemma b16decode_b16encode: "b16decode (map of_char (b16encode bs)) = Inr bs"
proof -
  have a: "list_all (\<lambda>c. c < 128) (map of_char (b16encode bs) :: nat list)"
    using b16encode_ascii[of bs] by (simp add: list_all_iff)
  have b: "map char_of (map of_char (b16encode bs) :: nat list) = b16encode bs"
    by (simp add: comp_def)
  show ?thesis
    by (simp add: b16decode_def ascii_encode_def a b b16encode_digits unhexlify_b16encode
          del: map_map)
qed

text \<open>
  UTF-8: decoding the bytes of a code point gives the code point back, and the number
  of continuation bytes it took.
\<close>

lemma of_char_char_of_small: "n < 256 \<Longrightarrow> (of_char (char_of (n::nat)) :: nat) = n"
  by simp

lemma utf8_decode_one_encode:
  assumes "utf8_encode_cp c = Inr bc"
  shows "\<exists>b rest. bc = b # rest \<and> utf8_decode_one b (rest @ r) = Inr (c, length rest)"
proof -
  consider (a) "c < 0x80" | (b) "0x80 \<le> c" "c < 0x800"
    | (c) "0x800 \<le> c" "c < 0x10000" "\<not> (0xD800 \<le> c \<and> c \<le> 0xDFFF)"
    | (d) "0x10000 \<le> c" "c < 0x110000"
    using assms by (auto simp: utf8_encode_cp_def split: if_splits)
  then show ?thesis
  proof cases
    case a
    then have bc: "bc = [char_of c]" using assms by (simp add: utf8_encode_cp_def)
    have "(of_char (char_of c) :: nat) = c" using a by simp
    then show ?thesis using a bc by (simp add: utf8_decode_one_def)
  next
    case b
    then have bc: "bc = [char_of (0xC0 + c div 64), char_of (0x80 + c mod 64)]"
      using assms by (simp add: utf8_encode_cp_def)
    have d: "c div 64 < 32" "2 \<le> c div 64"
    proof -
      show "c div 64 < 32" using b by (intro less_mult_imp_div_less) simp
      have "128 div 64 \<le> c div 64" using b by (intro div_le_mono) simp
      then show "2 \<le> c div 64" by simp
    qed
    have h0: "(of_char (char_of (0xC0 + c div 64)) :: nat) = 0xC0 + c div 64"
      using d by (intro of_char_char_of_small) simp
    have h1: "(of_char (char_of (0x80 + c mod 64)) :: nat) = 0x80 + c mod 64"
      by (intro of_char_char_of_small) simp
    have v: "(0xC0 + c div 64 - 0xC0) * 64 + (0x80 + c mod 64 - 0x80) = c"
      by simp
    show ?thesis
      unfolding bc using d v
      by (simp add: utf8_decode_one_def is_cont_def cont_bits_def h0 h1 del: of_char_of)
  next
    case c
    then have bc: "bc = [char_of (0xE0 + c div 4096), char_of (0x80 + c div 64 mod 64),
                   char_of (0x80 + c mod 64)]"
      using assms by (auto simp: utf8_encode_cp_def split: if_splits)
    have d: "c div 4096 < 16" using c by (intro less_mult_imp_div_less) simp
    have h0: "(of_char (char_of (0xE0 + c div 4096)) :: nat) = 0xE0 + c div 4096"
      using d by (intro of_char_char_of_small) simp
    have h1: "(of_char (char_of (0x80 + c div 64 mod 64)) :: nat) = 0x80 + c div 64 mod 64"
      by (intro of_char_char_of_small) simp
    have h2: "(of_char (char_of (0x80 + c mod 64)) :: nat) = 0x80 + c mod 64"
      by (intro of_char_char_of_small) simp
    have m: "c mod 4096 = 64 * (c div 64 mod 64) + c mod 64"
      using mod_mult2_eq[of c 64 64] by simp
    have "4096 * (c div 4096) + c mod 4096 = c" by simp
    then have v: "c div 4096 * 4096 + c div 64 mod 64 * 64 + c mod 64 = c"
      unfolding m by simp
    show ?thesis
      unfolding bc using d c
      by (simp add: utf8_decode_one_def is_cont_def cont_bits_def h0 h1 h2 v Let_def
            del: of_char_of)
  next
    case d
    then have bc: "bc = [char_of (0xF0 + c div 262144), char_of (0x80 + c div 4096 mod 64),
             char_of (0x80 + c div 64 mod 64), char_of (0x80 + c mod 64)]"
      using assms by (simp add: utf8_encode_cp_def)
    have e: "c div 262144 < 5" using d by (intro less_mult_imp_div_less) simp
    have h0: "(of_char (char_of (0xF0 + c div 262144)) :: nat) = 0xF0 + c div 262144"
      using e by (intro of_char_char_of_small) simp
    have h1: "(of_char (char_of (0x80 + c div 4096 mod 64)) :: nat) = 0x80 + c div 4096 mod 64"
      by (intro of_char_char_of_small) simp
    have h2: "(of_char (char_of (0x80 + c div 64 mod 64)) :: nat) = 0x80 + c div 64 mod 64"
      by (intro of_char_char_of_small) simp
    have h3: "(of_char (char_of (0x80 + c mod 64)) :: nat) = 0x80 + c mod 64"
      by (intro of_char_char_of_small) simp
    have m: "c mod 4096 = 64 * (c div 64 mod 64) + c mod 64"
      using mod_mult2_eq[of c 64 64] by simp
    have m2: "c mod 262144 = 4096 * (c div 4096 mod 64) + c mod 4096"
      using mod_mult2_eq[of c 4096 64] by simp
    have "262144 * (c div 262144) + c mod 262144 = c" by simp
    then have v: "c div 262144 * 262144 + c div 4096 mod 64 * 4096
               + c div 64 mod 64 * 64 + c mod 64 = c"
      unfolding m2 m by simp
    show ?thesis
      unfolding bc using e d
      by (simp add: utf8_decode_one_def is_cont_def cont_bits_def h0 h1 h2 h3 v Let_def
            del: of_char_of)
  qed
qed

lemma utf8_decode_encode: "utf8_encode p = Inr bs \<Longrightarrow> utf8_decode bs = Inr p"
proof (induction p arbitrary: bs)
  case Nil
  then show ?case by simp
next
  case (Cons c cs)
  from Cons.prems obtain bc r where bc: "utf8_encode_cp c = Inr bc"
    and r: "utf8_encode cs = Inr r" and bs: "bs = bc @ r"
    by (auto split: sum.splits)
  from utf8_decode_one_encode[OF bc, of r] obtain b rest where
    br: "bc = b # rest" and one: "utf8_decode_one b (rest @ r) = Inr (c, length rest)"
    by blast
  have "utf8_decode r = Inr cs" using Cons.IH[OF r] .
  then show ?case unfolding bs br by (simp add: one)
qed

definition utf8_encodable :: "pystr \<Rightarrow> bool" where
  "utf8_encodable p = list_all (\<lambda>c. c < 0xD800 \<or> (0xDFFF < c \<and> c < 0x110000)) p"

lemma utf8_encode_total: "utf8_encodable p \<Longrightarrow> \<exists>bs. utf8_encode p = Inr bs"
proof (induction p)
  case Nil
  then show ?case by simp
next
  case (Cons c cs)
  then obtain r where r: "utf8_encode cs = Inr r" by (auto simp: utf8_encodable_def)
  have "c < 0xD800 \<or> (0xDFFF < c \<and> c < 0x110000)"
    using Cons.prems by (simp add: utf8_encodable_def)
  then have "\<exists>bc. utf8_encode_cp c = Inr bc"
    by (auto simp: utf8_encode_cp_def)
  then obtain bc where "utf8_encode_cp c = Inr bc" by blast
  with r show ?case by simp
qed

lemma unescape_escape:
  "escape_project_name p = Inr t \<Longrightarrow> unescape_project_name t = Inr p"
proof -
  assume a: "escape_project_name p = Inr t"
  then obtain bs where bs: "utf8_encode p = Inr bs" and t: "t = map of_char (b16encode bs)"
    by (auto simp: escape_project_name_eq split: sum.splits)
  show ?thesis
    unfolding t unescape_project_name_def
    by (simp add: b16decode_b16encode utf8_decode_encode[OF bs] del: map_map)
qed

text \<open>
  Claim C1. \<open>_escape_project_name\<close> succeeds on every string that UTF-8 can encode (every
  code point is below \<open>0x110000\<close> and none is a surrogate), which covers every path made
  of printable segments; \<open>_unescape_project_name\<close> gives the string back from the token;
  and no other string escapes to the same token, so escaping is injective.
\<close>

theorem escape_round_trip:
  assumes "utf8_encodable p"
  shows "\<exists>t. escape_project_name p = Inr t \<and> unescape_project_name t = Inr p
            \<and> (\<forall>q. escape_project_name q = Inr t \<longrightarrow> q = p)"
proof -
  from utf8_encode_total[OF assms] obtain bs where bs: "utf8_encode p = Inr bs" by blast
  then have e: "escape_project_name p = Inr (map of_char (b16encode bs))"
    by (simp add: escape_project_name_eq)
  have u: "unescape_project_name (map of_char (b16encode bs)) = Inr p"
    by (rule unescape_escape[OF e])
  have i: "\<forall>q. escape_project_name q = Inr (map of_char (b16encode bs)) \<longrightarrow> q = p"
  proof (intro allI impI)
    fix q
    assume "escape_project_name q = Inr (map of_char (b16encode bs))"
    then have "unescape_project_name (map of_char (b16encode bs)) = Inr q"
      by (rule unescape_escape)
    with u show "q = p" by simp
  qed
  from e u i show ?thesis by blast
qed

lemma escape_example:
  "escape_project_name (ustr ''./proj-a'') = Inr (ustr ''2E2F70726F6A2D61'')"
  by code_simp

theorem escape_round_trip_witness:
  "utf8_encodable (ustr ''./proj-a'')
   \<and> escape_project_name (ustr ''./proj-a'') = Inr (ustr ''2E2F70726F6A2D61'')
   \<and> unescape_project_name (ustr ''2E2F70726F6A2D61'') = Inr (ustr ''./proj-a'')
   \<and> escape_project_name (ustr ''./proj-b'') \<noteq> Inr (ustr ''2E2F70726F6A2D61'')"
proof -
  have h: "utf8_encodable (ustr ''./proj-a'')"
    by (simp add: utf8_encodable_def ustr_def)
  have n: "ustr ''./proj-b'' \<noteq> ustr ''./proj-a''"
    by (simp add: ustr_def)
  from escape_round_trip[OF h] obtain t where
    t: "escape_project_name (ustr ''./proj-a'') = Inr t"
       "unescape_project_name t = Inr (ustr ''./proj-a'')"
       "\<forall>q. escape_project_name q = Inr t \<longrightarrow> q = ustr ''./proj-a''"
    by blast
  from t(1) escape_example have e: "t = ustr ''2E2F70726F6A2D61''" by simp
  from t(3) n have "escape_project_name (ustr ''./proj-b'') \<noteq> Inr t" by blast
  with h t(1,2) show ?thesis unfolding e by simp
qed

section \<open>Membership of a project name in the modelfile namespace\<close>

text \<open>\<open>s.split(sep, 1)\<close> cuts at the first separator, when there is one.\<close>

lemma str_split1_eq:
  "str_split1 c s =
     (if c \<in> set s then [takeWhile (\<lambda>x. x \<noteq> c) s, tl (dropWhile (\<lambda>x. x \<noteq> c) s)]
      else [s])"
  by (induction s) auto

lemma dropWhile_sep_eq:
  "c \<in> set s \<Longrightarrow> dropWhile (\<lambda>x. x \<noteq> c) s = c # tl (dropWhile (\<lambda>x. x \<noteq> c) s)"
  by (induction s) auto

text \<open>
  Claim C2, as the code has it. A name that does not start with \<open>.modelfile.\<close> is not a
  member and no name is recovered. For a name that does, the token is what follows the
  prefix up to the first \<open>/\<close>; when the token unescapes, the name is a member and the
  recovered name is the unescaped token followed by the rest of the name from that \<open>/\<close>
  on (nothing when there is no \<open>/\<close>); when it does not, the error of
  \<open>_unescape_project_name\<close> is raised and no membership is returned.
\<close>

theorem is_project_name_member_cases:
  "is_project_name_member nm =
     (if startswith nm (ustr ''.modelfile.'') then
        (case unescape_project_name (takeWhile (\<lambda>c. c \<noteq> SEP) (drop 11 nm)) of
           Inl err \<Rightarrow> Inl err
         | Inr pn \<Rightarrow> Inr (yes, Some (pn @ dropWhile (\<lambda>c. c \<noteq> SEP) (drop 11 nm))))
      else Inr (no, None))"
proof (cases "SEP \<in> set (drop 11 nm)")
  case True
  from dropWhile_sep_eq[OF True] show ?thesis
    by (simp add: is_project_name_member_def str_split1_eq True getitem0_def Let_def
          split: sum.split)
next
  case False
  then have t: "takeWhile (\<lambda>c. c \<noteq> SEP) (drop 11 nm) = drop 11 nm"
    and d: "dropWhile (\<lambda>c. c \<noteq> SEP) (drop 11 nm) = []"
    by auto
  show ?thesis
    unfolding t d
    by (simp add: is_project_name_member_def str_split1_eq False getitem0_def Let_def
          split: sum.split)
qed

text \<open>
  The claim as written fails on a name with the prefix whose token is not base-16: the
  call raises \<open>binascii.Error\<close>.
\<close>

theorem is_project_name_member_invalid_token_counterexample:
  "is_project_name_member (ustr ''.modelfile.zz'') = Inl BinasciiError"
  by (simp add: is_project_name_member_def startswith_def ustr_def SEP_def getitem0_def
        unescape_project_name_def b16decode_def ascii_encode_def is_b16_digit_def)

section \<open>The project name of a file-backed distribution\<close>

text \<open>
  The directory of a path does not depend on what follows its last \<open>/\<close>; a path
  relative to the working directory is never empty and never starts with \<open>/\<close>; and a
  project name made of the prefix and an escaped path is left as it is by \<open>safe_name\<close>.
\<close>

lemma rfind_last:
  assumes "c \<notin> set b"
  shows "rfind (d @ c # b) c = int (length d)"
proof -
  have "takeWhile (\<lambda>x. x \<noteq> c) (rev b @ c # rev d) = rev b"
    using assms by (subst takeWhile_append2) auto
  then show ?thesis by (simp add: rfind_def)
qed

lemma dirname_no_sep: "SEP \<notin> set s \<Longrightarrow> dirname s = []"
  by (simp add: dirname_def rfind_def)

lemma dirname_split:
  assumes "SEP \<notin> set b"
  shows "dirname (d @ SEP # b) = dirname (d @ [SEP])"
proof -
  have n: "nat (int (length d) + 1) = Suc (length d)" by simp
  have a: "take (nat (rfind (d @ SEP # b) SEP + 1)) (d @ SEP # b) = d @ [SEP]"
    unfolding rfind_last[OF assms] n by simp
  have "SEP \<notin> set ([] :: pystr)" by simp
  then have "rfind (d @ [SEP]) SEP = int (length d)" by (rule rfind_last)
  then have b: "take (nat (rfind (d @ [SEP]) SEP + 1)) (d @ [SEP]) = d @ [SEP]"
    unfolding n by simp
  show ?thesis unfolding dirname_def a b ..
qed

lemma str_split_no_sep: "p \<in> set (str_split c s) \<Longrightarrow> c \<notin> set p"
proof (induction s arbitrary: p)
  case Nil
  then show ?case by simp
next
  case (Cons x xs)
  then show ?case
    by (cases "str_split c xs") (auto split: if_splits)
qed

definition rel_part :: "pystr \<Rightarrow> bool" where
  "rel_part b = (b \<noteq> [] \<and> hd b \<noteq> SEP)"

lemma join_rel_part: "rel_part a \<Longrightarrow> rel_part b \<Longrightarrow> rel_part (join a b)"
  by (cases a; cases b) (auto simp: rel_part_def join_def startswith_def)

lemma join_all_rel_part: "rel_part a \<Longrightarrow> list_all rel_part bs \<Longrightarrow> rel_part (join_all a bs)"
  by (induction bs arbitrary: a) (simp_all add: join_rel_part)

lemma split_parts_rel:
  "list_all rel_part (filter (\<lambda>x. x \<noteq> []) (str_split SEP s))"
proof -
  have "rel_part p" if "p \<in> set (str_split SEP s)" "p \<noteq> []" for p
    using str_split_no_sep[OF that(1)] that(2) by (cases p) (auto simp: rel_part_def)
  then show ?thesis by (auto simp: list_all_iff)
qed

lemma relpath_rel_part:
  assumes "relpath e p = Inr r"
  shows "rel_part r"
proof -
  define start_list where "start_list = filter (\<lambda>x. x \<noteq> []) (str_split SEP (abspath e [DOT]))"
  define path_list where "path_list = filter (\<lambda>x. x \<noteq> []) (str_split SEP (abspath e p))"
  define i where "i = length (commonprefix start_list path_list)"
  define rel_list where
    "rel_list = replicate (length start_list - i) [DOT, DOT] @ drop i path_list"
  have dd: "rel_part [DOT, DOT]" by (simp add: rel_part_def DOT_def SEP_def)
  have "list_all rel_part path_list"
    unfolding path_list_def by (rule split_parts_rel)
  then have "list_all rel_part (drop i path_list)"
    by (auto simp: list_all_iff dest: in_set_dropD)
  with dd have all: "list_all rel_part rel_list"
    by (auto simp: rel_list_def list_all_iff)
  have ne: "p \<noteq> []" using assms by (auto simp: relpath_def split: if_splits)
  have r: "(case rel_list of [] \<Rightarrow> Inr [DOT] | a # q \<Rightarrow> Inr (join_all a q))
             = (Inr r :: py_error + pystr)"
    using assms ne
    unfolding relpath_def Let_def rel_list_def i_def path_list_def start_list_def
    by simp
  show ?thesis
  proof (cases rel_list)
    case Nil
    with r have "r = [DOT]" by simp
    then show ?thesis by (simp add: rel_part_def DOT_def SEP_def)
  next
    case (Cons a q)
    with all have "rel_part a" "list_all rel_part q" by simp_all
    then have "rel_part (join_all a q)" by (rule join_all_rel_part)
    with r Cons show ?thesis by simp
  qed
qed

lemma relpath_empty: "\<exists>err. relpath e [] = Inl err"
  by (simp add: relpath_def)

lemma dot_prefix:
  assumes "rel_part r"
  shows "(if hd r \<noteq> DOT then join [DOT] r else r)
           = (if startswith r [DOT] then r else ustr ''./'' @ r)"
  using assms
  by (cases r)
     (auto simp: rel_part_def join_def startswith_def endswith_def ustr_def DOT_def SEP_def)

lemma safe_name_id: "list_all is_safe_char s \<Longrightarrow> safe_name s = s"
  by (induction s) simp_all

lemma b16_digit_safe: "is_b16_digit c \<Longrightarrow> is_safe_char (of_char c)"
  by (auto simp: is_b16_digit_def is_safe_char_def Let_def)

lemma escape_safe:
  assumes "escape_project_name p = Inr t"
  shows "list_all is_safe_char t"
proof -
  from assms obtain bs where t: "t = map of_char (b16encode bs)"
    by (auto simp: escape_project_name_eq split: sum.splits)
  show ?thesis
    unfolding t using b16encode_digits[of bs]
    by (auto simp: list_all_iff b16_digit_safe)
qed

lemma prefix_safe: "list_all is_safe_char (ustr ''.modelfile.'')"
  by (simp add: ustr_def is_safe_char_def)

text \<open>
  Claim C3. When a file-backed distribution is constructed from a definition file, the
  path of the file is a directory part \<open>d\<close>, a \<open>/\<close> and a base name \<open>b\<close> without \<open>/\<close>; the
  directory of the path is the directory of \<open>d/\<close>, whatever \<open>b\<close> is; and the project name
  is \<open>.modelfile.\<close> followed by the escape of that directory taken relative to the
  working directory, with \<open>./\<close> put before it when it does not start with a dot.
\<close>

theorem modelfile_dist_project_name:
  assumes "ModelfileDistribution_init e mf = Inr mfd"
  shows "\<exists>d b r t. src mf = d @ SEP # b \<and> SEP \<notin> set b
           \<and> dirname (src mf) = dirname (d @ [SEP])
           \<and> relpath e (dirname (src mf)) = Inr r
           \<and> escape_project_name (if startswith r [DOT] then r else ustr ''./'' @ r) = Inr t
           \<and> mfd_project_name mfd = ustr ''.modelfile.'' @ t"
proof -
  from assms obtain pn where pn: "modelfile_project_name e mf = Inr pn"
    and m: "mfd_project_name mfd = safe_name (if pn = [] then ustr ''Unknown'' else pn)"
    by (auto simp: ModelfileDistribution_init_def split: sum.splits)
  from pn obtain r where r: "relpath e (dirname (src mf)) = Inr r"
    by (auto simp: modelfile_project_name_def split: sum.splits)
  have rp: "rel_part r" using r by (rule relpath_rel_part)
  then have g: "getitem0 r = Inr (hd r)"
    by (cases r) (auto simp: rel_part_def getitem0_def)
  from pn r g obtain t where
    t: "escape_project_name (if hd r \<noteq> DOT then join [DOT] r else r) = Inr t"
    and pt: "pn = ustr ''.modelfile.'' @ t"
    by (auto simp: modelfile_project_name_def Let_def split: sum.splits)
  have t': "escape_project_name (if startswith r [DOT] then r else ustr ''./'' @ r) = Inr t"
    using t dot_prefix[OF rp] by simp
  have sf: "list_all is_safe_char pn"
    unfolding pt using prefix_safe escape_safe[OF t] by simp
  have "ustr ''.modelfile.'' \<noteq> []" by (simp add: ustr_def)
  then have "pn \<noteq> []" unfolding pt by simp
  with m have "mfd_project_name mfd = safe_name pn" by simp
  also have "safe_name pn = pn" using sf by (rule safe_name_id)
  finally have n: "mfd_project_name mfd = ustr ''.modelfile.'' @ t"
    unfolding pt .
  have "SEP \<in> set (src mf)"
  proof (rule ccontr)
    assume "SEP \<notin> set (src mf)"
    then have "dirname (src mf) = []" by (rule dirname_no_sep)
    with r relpath_empty[of e] show False by auto
  qed
  then obtain d b where db: "src mf = d @ SEP # b" "SEP \<notin> set b"
    using split_list_last[of SEP "src mf"] by blast
  have "dirname (src mf) = dirname (d @ [SEP])"
    unfolding db(1) using db(2) by (rule dirname_split)
  with db r t' n show ?thesis by blast
qed

lemma init_example:
  "ModelfileDistribution_init example_env (mfd_modelfile example_mfd) = Inr example_mfd"
  by code_simp

lemma relpath_example:
  "relpath example_env (dirname (src (mfd_modelfile example_mfd))) = Inr (ustr ''proj-a'')"
  by code_simp

lemma dirname_example:
  "dirname (src (mfd_modelfile example_mfd)) = dirname (ustr ''./proj-a'' @ [SEP])"
  by code_simp

theorem modelfile_dist_project_name_witness:
  "ModelfileDistribution_init example_env (mfd_modelfile example_mfd) = Inr example_mfd
   \<and> src (mfd_modelfile example_mfd) = ustr ''./proj-a'' @ SEP # ustr ''MODEL''
   \<and> dirname (src (mfd_modelfile example_mfd)) = dirname (ustr ''./proj-a'' @ [SEP])
   \<and> relpath example_env (dirname (src (mfd_modelfile example_mfd))) = Inr (ustr ''proj-a'')
   \<and> escape_project_name (ustr ''./'' @ ustr ''proj-a'') = Inr (ustr ''2E2F70726F6A2D61'')
   \<and> mfd_project_name example_mfd = ustr ''.modelfile.'' @ ustr ''2E2F70726F6A2D61''"
proof -
  from modelfile_dist_project_name[OF init_example] obtain r t where
    h: "relpath example_env (dirname (src (mfd_modelfile example_mfd))) = Inr r"
       "escape_project_name (if startswith r [DOT] then r else ustr ''./'' @ r) = Inr t"
       "mfd_project_name example_mfd = ustr ''.modelfile.'' @ t"
    by blast
  have s: "src (mfd_modelfile example_mfd) = ustr ''./proj-a'' @ SEP # ustr ''MODEL''"
    by (simp add: example_mfd_def ustr_def SEP_def)
  from h(1) relpath_example have r: "r = ustr ''proj-a''" by simp
  have ns: "\<not> startswith (ustr ''proj-a'') [DOT]"
    by (simp add: startswith_def ustr_def DOT_def)
  from h(2) have e: "escape_project_name (ustr ''./'' @ ustr ''proj-a'') = Inr t"
    unfolding r using ns by simp
  have "ustr ''./'' @ ustr ''proj-a'' = ustr ''./proj-a''" by (simp add: ustr_def)
  with e escape_example have t: "t = ustr ''2E2F70726F6A2D61''" by simp
  from h(3) have n: "mfd_project_name example_mfd = ustr ''.modelfile.'' @ ustr ''2E2F70726F6A2D61''"
    unfolding t .
  from e have e': "escape_project_name (ustr ''./'' @ ustr ''proj-a'') = Inr (ustr ''2E2F70726F6A2D61'')"
    unfolding t .
  show ?thesis
    using init_example s dirname_example relpath_example e' n by blast
qed

section \<open>The provenance reference of a model\<close>

text \<open>
  Claim C9, as the code has it. The reference of a model of a package distribution is
  \<open>dist:\<close>, then \<open>str(distribution)\<close> (the project name and the version, without the
  location that \<open>repr\<close> adds), a space and the name of the model, and nothing is read or
  logged. The reference of a model of a file-backed distribution is \<open>file:\<close>, then the
  absolute path of the definition file, a space, the hash, a space and the name of the
  model; the hash is the MD5 hex digest of the bytes of the file, or \<open>-\<close> when reading
  them raises \<open>IOError\<close>, which is logged as a warning and not raised; any other error of
  the read is raised.
\<close>

theorem reference_format:
  "reference e m tr =
     (case dist m of
        PackageDist d \<Rightarrow>
          (Inr (ustr ''dist:'' @ Distribution_str d @ ustr '' '' @ name m), tr)
      | ModelfileDist mfd \<Rightarrow>
          (let path = abspath e (src (mfd_modelfile mfd))
           in case read_bytes e path of
                Inr path_bytes \<Rightarrow>
                  (Inr (ustr ''file:'' @ path @ ustr '' '' @ md5_hexdigest e path_bytes
                          @ ustr '' '' @ name m),
                   tr @ [ReadBytes path])
              | Inl err \<Rightarrow>
                  if err = IOError
                  then (Inr (ustr ''file:'' @ path @ ustr '' - '' @ name m),
                        tr @ [ReadBytes path, WarnUnableToReadHash path])
                  else (Inl err, tr @ [ReadBytes path])))"
  by (simp add: reference_def modelfile_dist_ref_def modelfile_hash_def Let_def ustr_def
        split: any_dist.split sum.split py_error.split)

definition example_model_pkg :: Model where
  "example_model_pkg =
     \<lparr>name = ustr ''net'', dist = PackageDist example_dist, modeldef = example_net,
      fullname_cache = None\<rparr>"

lemma reference_example_pkg: "reference example_env example_model_pkg [] = (Inr (ustr ''dist:pkg 1.0 net''), [])"
  by (simp add: reference_def example_model_pkg_def example_dist_def Distribution_str_def ustr_def)

lemma repr_example: "Distribution_repr example_dist = ustr ''pkg 1.0 (/site)''"
  by (simp add: Distribution_repr_def example_dist_def Distribution_str_def ustr_def)

lemma abspath_example: "abspath example_env (ustr ''./proj-a/MODEL'') = ustr ''/home/u/proj-a/MODEL''"
  by code_simp

lemma reference_example_file:
  "reference example_env example_model_net [] =
     (Inr (ustr ''file:/home/u/proj-a/MODEL 83a5a282f092aa7baf6982b54227bb54 net''),
      [ReadBytes (ustr ''/home/u/proj-a/MODEL'')])"
proof -
  have r: "read_bytes example_env (ustr ''/home/u/proj-a/MODEL'') = Inr ''net''"
    by (simp add: example_env_def)
  have m: "md5_hexdigest example_env ''net'' = ustr ''83a5a282f092aa7baf6982b54227bb54''"
    by (simp add: example_env_def)
  have s: "src (mfd_modelfile example_mfd) = ustr ''./proj-a/MODEL''"
    by (simp add: example_mfd_def)
  show ?thesis
    by (simp add: reference_def example_model_net_def modelfile_dist_ref_def
          modelfile_hash_def s abspath_example r m Let_def)
       (simp add: ustr_def)
qed

text \<open>
  The claim as written fails twice. A package distribution with a location is
  formatted by \<open>%s\<close> without the location that \<open>repr\<close> appends; and the reference of a
  file-backed model ends with the name of the model, after the hash.
\<close>

theorem reference_counterexample:
  "reference example_env example_model_pkg [] = (Inr (ustr ''dist:pkg 1.0 net''), [])
   \<and> ustr ''dist:'' @ Distribution_repr example_dist @ ustr '' '' @ name example_model_pkg
       = ustr ''dist:pkg 1.0 (/site) net''
   \<and> reference example_env example_model_net [] =
       (Inr (ustr ''file:/home/u/proj-a/MODEL 83a5a282f092aa7baf6982b54227bb54 net''),
        [ReadBytes (ustr ''/home/u/proj-a/MODEL'')])
   \<and> ustr ''file:'' @ abspath example_env (src (mfd_modelfile example_mfd)) @ ustr '' ''
         @ md5_hexdigest example_env ''net''
       = ustr ''file:/home/u/proj-a/MODEL 83a5a282f092aa7baf6982b54227bb54''"
proof -
  have s: "src (mfd_modelfile example_mfd) = ustr ''./proj-a/MODEL''"
    by (simp add: example_mfd_def)
  have m: "md5_hexdigest example_env ''net'' = ustr ''83a5a282f092aa7baf6982b54227bb54''"
    by (simp add: example_env_def)
  show ?thesis
    using reference_example_pkg repr_example reference_example_file
    by (simp add: s m abspath_example example_model_pkg_def) (simp add: ustr_def)
qed

section \<open>The flag value codec\<close>

text \<open>How PyYAML, a YAML 1.1 loader, resolves the three plain scalars the encoder
  writes for \<open>True\<close>, \<open>False\<close> and \<open>None\<close>.\<close>

definition yaml_core_scalars :: "flag_env \<Rightarrow> bool" where
  "yaml_core_scalars fe =
     (yaml_safe_load fe (ustr ''yes'') = Inr (PyBool True)
      \<and> yaml_safe_load fe (ustr ''no'') = Inr (PyBool False)
      \<and> yaml_safe_load fe (ustr ''null'') = Inr PyNone)"

lemma digits10_digits: "list_all (\<lambda>c. 48 \<le> c \<and> c \<le> 57) (digits10 n)"
proof (induction n rule: digits10.induct)
  case (1 n)
  show ?case
  proof (cases "n < 10")
    case True
    then show ?thesis by (subst digits10.simps) simp
  next
    case False
    with 1 have "list_all (\<lambda>c. 48 \<le> c \<and> c \<le> 57) (digits10 (n div 10))" by simp
    moreover have "n mod 10 < 10" by simp
    ultimately show ?thesis using False by (subst digits10.simps) simp
  qed
qed

lemma digits10_nonempty: "digits10 n \<noteq> []"
  by (subst digits10.simps) simp

lemma digit_value_digit: "d < 10 \<Longrightarrow> digit_value fe (48 + d) = Some d"
  by (simp add: digit_value_def)

lemma int_digits_digit:
  "d < 10 \<Longrightarrow> int_digits fe ((48 + d) # rest) prev acc = int_digits fe rest True (10 * acc + d)"
  by (simp add: digit_value_digit)

lemma int_digits_digits10:
  "int_digits fe (digits10 n @ rest) prev acc
     = int_digits fe rest True (acc * 10 ^ length (digits10 n) + n)"
proof (induction n arbitrary: rest prev acc rule: digits10.induct)
  case (1 n)
  show ?case
  proof (cases "n < 10")
    case True
    then have d: "digits10 n = [48 + n]" by (subst digits10.simps) simp
    show ?thesis unfolding d using True by (simp add: digit_value_digit mult.commute)
  next
    case False
    then have d: "digits10 n = digits10 (n div 10) @ [48 + n mod 10]"
      by (subst digits10.simps) simp
    have m: "n mod 10 < 10" by simp
    have "int_digits fe (digits10 n @ rest) prev acc
        = int_digits fe (digits10 (n div 10) @ ((48 + n mod 10) # rest)) prev acc"
      unfolding d by simp
    also have "\<dots> = int_digits fe ((48 + n mod 10) # rest) True
                       (acc * 10 ^ length (digits10 (n div 10)) + n div 10)"
      using 1[OF False] by simp
    also have "\<dots> = int_digits fe rest True
                       (10 * (acc * 10 ^ length (digits10 (n div 10)) + n div 10) + n mod 10)"
      by (rule int_digits_digit[OF m])
    also have "10 * (acc * 10 ^ length (digits10 (n div 10)) + n div 10) + n mod 10
        = acc * 10 ^ length (digits10 n) + n"
      unfolding d by (simp add: algebra_simps)
    finally show ?thesis .
  qed
qed

lemma int_digits_of_digits10: "int_digits fe (digits10 n) False 0 = Some n"
  using int_digits_digits10[of fe n "[]" False 0] by simp

lemma int_strip_id:
  assumes "xs \<noteq> []" "\<not> is_int_space (hd xs)" "\<not> is_int_space (last xs)"
  shows "int_strip xs = xs"
proof -
  have a: "dropWhile is_int_space xs = xs"
    using assms by (cases xs) auto
  have "rev xs \<noteq> []" "\<not> is_int_space (hd (rev xs))"
    using assms by (auto simp: hd_rev)
  then have b: "dropWhile is_int_space (rev xs) = rev xs"
    by (cases "rev xs") auto
  show ?thesis unfolding int_strip_def a b by simp
qed

lemma digit_not_space: "48 \<le> c \<Longrightarrow> c \<le> 57 \<Longrightarrow> \<not> is_int_space c"
  by (auto simp: is_int_space_def)

lemma digits10_hd: "48 \<le> hd (digits10 n) \<and> hd (digits10 n) \<le> 57"
  using digits10_digits[of n] digits10_nonempty[of n]
  by (cases "digits10 n") auto

lemma digits10_last: "48 \<le> last (digits10 n) \<and> last (digits10 n) \<le> 57"
proof -
  have "last (digits10 n) \<in> set (digits10 n)"
    using digits10_nonempty by simp
  with digits10_digits[of n] show ?thesis
    by (simp add: list_all_iff)
qed

lemma int_strip_str_int: "int_strip (str_int i) = str_int i"
proof (rule int_strip_id)
  show "str_int i \<noteq> []" by (simp add: str_int_def digits10_nonempty)
  show "\<not> is_int_space (hd (str_int i))"
    using digits10_hd[of "nat i"]
    by (auto simp: str_int_def is_int_space_def)
  have "\<not> is_int_space (last (digits10 n))" for n
    using digits10_last[of n] digit_not_space by blast
  then show "\<not> is_int_space (last (str_int i))"
    by (simp add: str_int_def digits10_nonempty)
qed

lemma py_int_str_int: "py_int fe (str_int i) = Inr i"
proof (cases "i < 0")
  case True
  then show ?thesis
    unfolding py_int_def int_strip_str_int
    by (simp add: str_int_def int_digits_of_digits10)
next
  case False
  obtain c r where cr: "digits10 (nat i) = c # r"
    using digits10_nonempty[of "nat i"] by (cases "digits10 (nat i)") auto
  have "48 \<le> c" using digits10_hd[of "nat i"] cr by simp
  then have "c \<noteq> 45" "c \<noteq> 43" by auto
  moreover have "int_digits fe (c # r) False 0 = Some (nat i)"
    using int_digits_of_digits10[of fe "nat i"] cr by simp
  ultimately show ?thesis
    unfolding py_int_def int_strip_str_int using False cr
    by (simp add: str_int_def)
qed

lemma str_int_nonempty: "str_int i \<noteq> []"
  by (simp add: str_int_def digits10_nonempty)

lemma decode_int: "decode_flag_val fe (str_int i) = Inr (PyInt i)"
  by (subst decode_flag_val.simps) (simp add: py_int_str_int str_int_nonempty)

lemma py_int_yes: "py_int fe (ustr ''yes'') = Inl (ValueError (ustr ''invalid literal for int() with base 10''))"
  by (simp add: py_int_def ustr_def int_strip_def is_int_space_def digit_value_def)

lemma py_int_no: "py_int fe (ustr ''no'') = Inl (ValueError (ustr ''invalid literal for int() with base 10''))"
  by (simp add: py_int_def ustr_def int_strip_def is_int_space_def digit_value_def)

lemma py_int_null: "py_int fe (ustr ''null'') = Inl (ValueError (ustr ''invalid literal for int() with base 10''))"
  by (simp add: py_int_def ustr_def int_strip_def is_int_space_def digit_value_def)

lemma yaml_parse_plain:
  "list_all is_name_char s \<Longrightarrow> yaml_parse fe s = yaml_safe_load fe s"
proof -
  assume "list_all is_name_char s"
  then have d: "dropWhile is_name_char s = []" by (simp add: list_all_iff)
  have "FUNCTION_P_match s = None"
    by (simp only: FUNCTION_P_match_def d Let_def list.case)
  then have "decode_flag_function fe s = Inl (ValueError (ustr ''not a function''))"
    by (subst decode_flag_function.simps) simp
  then show ?thesis
    by (subst yaml_parse.simps) (simp add: is_ValueError_def)
qed

text \<open>
  Claim C10. \<open>encode_flag_val\<close> maps \<open>True\<close> to \<open>yes\<close>, \<open>False\<close> to \<open>no\<close>, \<open>None\<close> to
  \<open>null\<close> and every integer to its decimal string, and \<open>decode_flag_val\<close> maps each of
  these strings back to the value: the integers through \<open>int\<close>, the three words through
  \<open>yaml.safe_load\<close>, which reads them as PyYAML does.
\<close>

theorem flag_val_round_trip:
  assumes "yaml_core_scalars fe"
  shows "encode_flag_val fe (PyBool True) = Inr (ustr ''yes'')
       \<and> encode_flag_val fe (PyBool False) = Inr (ustr ''no'')
       \<and> encode_flag_val fe PyNone = Inr (ustr ''null'')
       \<and> encode_flag_val fe (PyInt i) = Inr (str_int i)
       \<and> decode_flag_val fe (ustr ''yes'') = Inr (PyBool True)
       \<and> decode_flag_val fe (ustr ''no'') = Inr (PyBool False)
       \<and> decode_flag_val fe (ustr ''null'') = Inr PyNone
       \<and> decode_flag_val fe (str_int i) = Inr (PyInt i)"
proof -
  have y: "yaml_parse fe (ustr ''yes'') = Inr (PyBool True)"
    using assms by (subst yaml_parse_plain) (simp_all add: ustr_def is_name_char_def yaml_core_scalars_def)
  have n: "yaml_parse fe (ustr ''no'') = Inr (PyBool False)"
    using assms by (subst yaml_parse_plain) (simp_all add: ustr_def is_name_char_def yaml_core_scalars_def)
  have u: "yaml_parse fe (ustr ''null'') = Inr PyNone"
    using assms by (subst yaml_parse_plain) (simp_all add: ustr_def is_name_char_def yaml_core_scalars_def)
  have dy: "decode_flag_val fe (ustr ''yes'') = Inr (PyBool True)"
    by (subst decode_flag_val.simps) (simp add: py_int_yes y is_ValueError_def, simp add: ustr_def)
  have dn: "decode_flag_val fe (ustr ''no'') = Inr (PyBool False)"
    by (subst decode_flag_val.simps) (simp add: py_int_no n is_ValueError_def, simp add: ustr_def)
  have du: "decode_flag_val fe (ustr ''null'') = Inr PyNone"
    by (subst decode_flag_val.simps) (simp add: py_int_null u is_ValueError_def, simp add: ustr_def)
  show ?thesis using dy dn du decode_int by simp
qed

text \<open>A loader that knows the three words and nothing else, and the codec at \<open>-45\<close>.\<close>

definition example_flag_env :: flag_env where
  "example_flag_env =
     \<lparr>yaml_safe_dump = (\<lambda>_. []),
      yaml_safe_load = (\<lambda>s. if s = ustr ''yes'' then Inr (PyBool True)
                             else if s = ustr ''no'' then Inr (PyBool False)
                             else if s = ustr ''null'' then Inr PyNone
                             else Inl YAMLError),
      float_parses = (\<lambda>_. False),
      unicode_decimal = (\<lambda>_. None),
      sorted_items = Inr\<rparr>"

lemma str_int_example: "str_int (- 45) = ustr ''-45''"
proof -
  have "digits10 45 = [52, 53]"
    by (subst digits10.simps, subst digits10.simps) simp
  then show ?thesis by (simp add: str_int_def ustr_def)
qed

theorem flag_val_round_trip_witness:
  "yaml_core_scalars example_flag_env
   \<and> decode_flag_val example_flag_env (ustr ''yes'') = Inr (PyBool True)
   \<and> decode_flag_val example_flag_env (ustr ''no'') = Inr (PyBool False)
   \<and> decode_flag_val example_flag_env (ustr ''null'') = Inr PyNone
   \<and> encode_flag_val example_flag_env (PyInt (- 45)) = Inr (ustr ''-45'')
   \<and> decode_flag_val example_flag_env (ustr ''-45'') = Inr (PyInt (- 45))"
proof -
  have h: "yaml_core_scalars example_flag_env"
    by (simp add: yaml_core_scalars_def example_flag_env_def ustr_def)
  from flag_val_round_trip[OF h, of "- 45"] h show ?thesis
    by (simp add: str_int_example)
qed

end
